theory Spec2Isabelle
  imports Main "HOL-Library.Word"
begin

section \<open>JavaScript values used by the bot\<close>

text \<open>
  A JavaScript string is a sequence of UTF-16 code units. String literals of the source
  that are plain ASCII are written with \<open>lit\<close>; the fire emoji U+1F525 that ends two of
  the literals is the surrogate pair D83D DD25.
\<close>

type_synonym jsstring = "16 word list"

type_synonym bytes = "8 word list"

definition lit :: "string \<Rightarrow> jsstring" where
  "lit s = map of_char s"

definition fire :: jsstring where
  "fire = [0xD83D, 0xDD25]"

text \<open>
  The fields read from JSON payloads and from \<open>PostData\<close> objects hold a string, or
  \<open>null\<close>, or are missing (\<open>undefined\<close>). Values of other JSON types in these
  fields are outside the model: the payload is taken at the type that the interfaces of the
  source declare for it, with every field possibly missing or null.
\<close>

datatype jsval = Undefined | Null | Str jsstring

text \<open>Truthiness, as tested by \<open>if (v)\<close>, \<open>!v\<close> and \<open>v || w\<close>.\<close>

fun truthy :: "jsval \<Rightarrow> bool" where
  "truthy (Str s) = (s \<noteq> [])"
| "truthy Undefined = False"
| "truthy Null = False"

text \<open>\<open>a || b\<close> on two values, and \<open>a || "literal"\<close> whose result is always a string.\<close>

definition js_or :: "jsval \<Rightarrow> jsval \<Rightarrow> jsval" where
  "js_or a b = (if truthy a then a else b)"

fun or_str :: "jsval \<Rightarrow> jsstring \<Rightarrow> jsstring" where
  "or_str (Str s) d = (if s \<noteq> [] then s else d)"
| "or_str Undefined d = d"
| "or_str Null d = d"

text \<open>String conversion, as done by template literals and by \<open>fetch(input)\<close>.\<close>

fun to_string :: "jsval \<Rightarrow> jsstring" where
  "to_string (Str s) = s"
| "to_string Undefined = lit ''undefined''"
| "to_string Null = lit ''null''"

function to_decimal :: "nat \<Rightarrow> jsstring" where
  "to_decimal n =
     (if n < 10 then [of_nat (48 + n)]
      else to_decimal (n div 10) @ [of_nat (48 + n mod 10)])"
  by pat_completeness auto
termination
  by (relation "measure (\<lambda>n. n)") auto

text \<open>\<open>Array.prototype.join\<close>.\<close>

fun join :: "jsstring \<Rightarrow> jsstring list \<Rightarrow> jsstring" where
  "join sep [] = []"
| "join sep [x] = x"
| "join sep (x # y # ys) = x @ sep @ join sep (y # ys)"

text \<open>
  The code units matched by the regular expression class \<open>\s\<close>: the ECMAScript white
  space and line terminator characters, all of them in the basic plane.
\<close>

definition is_space :: "16 word \<Rightarrow> bool" where
  "is_space c \<longleftrightarrow>
     (0x0009 \<le> c \<and> c \<le> 0x000D) \<or> c = 0x0020 \<or> c = 0x00A0 \<or> c = 0x1680 \<or>
     (0x2000 \<le> c \<and> c \<le> 0x200A) \<or> c = 0x2028 \<or> c = 0x2029 \<or> c = 0x202F \<or>
     c = 0x205F \<or> c = 0x3000 \<or> c = 0xFEFF"

text \<open>\<open>t.replace(/\s+/g, "")\<close> deletes every run of white space.\<close>

definition strip_space :: "jsstring \<Rightarrow> jsstring" where
  "strip_space t = filter (\<lambda>c. \<not> is_space c) t"


section \<open>Content records, requests and responses\<close>

text \<open>
  \<open>PostData\<close> is the object handed from \<open>getPostText\<close> to \<open>Bot.post\<close>. The variants
  of the source declare it with different optional fields; the record has the fields of
  all of them, and a field that an object does not carry is \<open>Undefined\<close> (\<open>None\<close> for
  the image buffer).
\<close>

record PostData =
  text' :: jsstring
  imageBuffer :: "bytes option"
  imageAlt :: jsval
  imageMimeType :: jsval
  imageUrl :: jsval
  externalUrl :: jsval
  externalTitle :: jsval
  externalDescription :: jsval

definition text_only :: "jsstring \<Rightarrow> PostData" where
  "text_only t =
     \<lparr>text' = t, imageBuffer = None, imageAlt = Undefined, imageMimeType = Undefined,
      imageUrl = Undefined, externalUrl = Undefined, externalTitle = Undefined,
      externalDescription = Undefined\<rparr>"

text \<open>An entry of the listing returned by the content API (\<open>SnaggMeme\<close>).\<close>

record SnaggMeme =
  title :: jsval
  slug :: jsval
  description :: jsval
  image_url :: jsval
  watermarked_image_url :: jsval
  alt_text :: jsval
  ai_alt_text :: jsval
  tags :: "jsstring list option"

text \<open>
  The parsed JSON body \<open>{ data: { memes: [...] }, error }\<close>; \<open>None\<close> is a missing or
  null \<open>data\<close>, respectively \<open>memes\<close>.
\<close>

record SnaggData =
  memes :: "SnaggMeme list option"

record SnaggRandomResponse =
  data :: "SnaggData option"
  error :: jsval

text \<open>
  A response. Reading the body can reject, which is \<open>None\<close> in the three body fields;
  \<open>body_json = Some None\<close> is a body that parses to \<open>null\<close>.
\<close>

record response =
  ok :: bool
  status :: nat
  statusText :: jsstring
  headers :: "string \<Rightarrow> jsstring option"
  body_text :: "jsstring option"
  body_arrayBuffer :: "bytes option"
  body_json :: "SnaggRandomResponse option option"

record request =
  url :: jsstring
  http_method :: string
  req_headers :: "(string \<times> jsstring) list"

record blob =
  blob_bytes :: bytes
  blob_type :: jsstring

datatype blobref = BlobRef jsstring

datatype facet_feature = Link jsstring | Mention jsstring | Tag jsstring

record facet =
  byteStart :: nat
  byteEnd :: nat
  feature :: facet_feature

record image_item =
  image :: blobref
  alt :: jsstring

record external_card =
  uri :: jsval
  ext_title :: jsstring
  ext_description :: jsstring

datatype embed = EmbedImages "image_item list" | EmbedExternal external_card

record post_record =
  rec_text :: jsstring
  rec_facets :: "facet list option"
  rec_embed :: "embed option"


section \<open>Effects: the trace of calls, rejections and exceptions\<close>

text \<open>
  Every call that leaves the process is recorded, in order, in a trace. A computation
  takes the trace so far and returns the extended trace with either a value or the
  exception it raised (a rejected promise, under \<open>await\<close>). Console output is not
  modelled.
\<close>

datatype event =
    Fetch request
  | DetectFacets jsstring
  | UploadBlob blob
  | Post post_record

datatype exn =
    FetchRejected
  | BodyRejected
  | URIError
  | TypeError
  | Error jsstring
  | XRPCError

type_synonym 'a io = "event list \<Rightarrow> (exn + 'a) \<times> event list"

definition io_return :: "'a \<Rightarrow> 'a io" where
  "io_return x = (\<lambda>tr. (Inr x, tr))"

definition io_throw :: "exn \<Rightarrow> 'a io" where
  "io_throw e = (\<lambda>tr. (Inl e, tr))"

definition io_bind :: "'a io \<Rightarrow> ('a \<Rightarrow> 'b io) \<Rightarrow> 'b io" where
  "io_bind m f =
     (\<lambda>tr. case m tr of (Inl e, tr') \<Rightarrow> (Inl e, tr') | (Inr x, tr') \<Rightarrow> f x tr')"

text \<open>\<open>try { m } catch (e) { h e }\<close>.\<close>

definition io_catch :: "'a io \<Rightarrow> (exn \<Rightarrow> 'a io) \<Rightarrow> 'a io" where
  "io_catch m h =
     (\<lambda>tr. case m tr of (Inl e, tr') \<Rightarrow> h e tr' | (Inr x, tr') \<Rightarrow> (Inr x, tr'))"

text \<open>A value that is there or whose absence raises the given exception.\<close>

definition io_of_option :: "exn \<Rightarrow> 'a option \<Rightarrow> 'a io" where
  "io_of_option e v = (case v of None \<Rightarrow> io_throw e | Some x \<Rightarrow> io_return x)"

text \<open>
  The world outside the process: the configuration read from the environment, the answers
  of the network and of the social network's client, each of which may depend on the calls
  made so far, and the built-in \<open>decodeURIComponent\<close>, which raises a \<open>URIError\<close>
  (\<open>None\<close>) on a malformed escape sequence.
\<close>

record config =
  apiUrl :: jsstring
  apiKey :: jsval

record env =
  snaggConfig :: config
  fetch_answer :: "event list \<Rightarrow> request \<Rightarrow> response option"
  decodeURIComponent :: "jsstring \<Rightarrow> jsstring option"
  detectFacets_answer :: "event list \<Rightarrow> jsstring \<Rightarrow> facet list option option"
  uploadBlob_answer :: "event list \<Rightarrow> blob \<Rightarrow> blobref option"
  post_answer :: "event list \<Rightarrow> post_record \<Rightarrow> jsstring option"

definition fetch :: "env \<Rightarrow> request \<Rightarrow> response io" where
  "fetch E req =
     (\<lambda>tr. (case fetch_answer E tr req of None \<Rightarrow> Inl FetchRejected | Some r \<Rightarrow> Inr r,
            tr @ [Fetch req]))"

definition detectFacets :: "env \<Rightarrow> jsstring \<Rightarrow> facet list option io" where
  "detectFacets E t =
     (\<lambda>tr. (case detectFacets_answer E tr t of None \<Rightarrow> Inl XRPCError | Some f \<Rightarrow> Inr f,
            tr @ [DetectFacets t]))"

definition uploadBlob :: "env \<Rightarrow> blob \<Rightarrow> blobref io" where
  "uploadBlob E b =
     (\<lambda>tr. (case uploadBlob_answer E tr b of None \<Rightarrow> Inl XRPCError | Some r \<Rightarrow> Inr r,
            tr @ [UploadBlob b]))"

definition agent_post :: "env \<Rightarrow> post_record \<Rightarrow> jsstring io" where
  "agent_post E r =
     (\<lambda>tr. (case post_answer E tr r of None \<Rightarrow> Inl XRPCError | Some u \<Rightarrow> Inr u,
            tr @ [Post r]))"

definition headers_get :: "response \<Rightarrow> string \<Rightarrow> jsval" where
  "headers_get r name = (case headers r name of None \<Rightarrow> Null | Some v \<Rightarrow> Str v)"

definition decode :: "env \<Rightarrow> jsstring \<Rightarrow> jsstring io" where
  "decode E s = io_of_option URIError (decodeURIComponent E s)"

text \<open>The request headers that both strategies build: the API key, when configured.\<close>

definition api_key_header :: "env \<Rightarrow> (string \<times> jsstring) list" where
  "api_key_header E =
     (if truthy (apiKey (snaggConfig E))
      then [(''X-API-Key'', to_string (apiKey (snaggConfig E)))] else [])"


section \<open>The fetch strategies (\<open>lib/getPostText.ts\<close>, unified variant)\<close>

definition dquote :: jsstring where
  "dquote = [0x22]"

definition newline :: jsstring where
  "newline = [0x0A]"

text \<open>
  The caption text and the parts of the alt text, computed from the decoded headers. The
  generate-only variant of \<open>getPostText\<close> repeats the same statements.
\<close>

definition generated_postText :: "jsstring \<Rightarrow> jsstring \<Rightarrow> jsstring" where
  "generated_postText topText bottomText =
     (if topText \<noteq> [] \<and> bottomText \<noteq> [] then topText @ lit '' / '' @ bottomText
      else if topText \<noteq> [] \<or> bottomText \<noteq> []
        then (if topText \<noteq> [] then topText else bottomText)
      else lit ''Fresh meme from snagg.meme '' @ fire)"

definition generated_altParts :: "jsstring \<Rightarrow> jsstring \<Rightarrow> jsstring \<Rightarrow> jsstring list" where
  "generated_altParts templateName topText bottomText =
     [lit ''Meme'']
     @ (if templateName \<noteq> [] then [lit ''('' @ templateName @ lit '')''] else [])
     @ (if topText \<noteq> [] then [lit ''Top text: '' @ dquote @ topText @ dquote] else [])
     @ (if bottomText \<noteq> [] then [lit ''Bottom text: '' @ dquote @ bottomText @ dquote] else [])"

definition generate_request :: "env \<Rightarrow> request" where
  "generate_request E =
     \<lparr>url = apiUrl (snaggConfig E) @ lit ''/memes/generate/image'',
      http_method = ''POST'',
      req_headers = api_key_header E\<rparr>"

text \<open>The body of the \<open>try\<close> block of \<open>fetchGeneratedMeme\<close>.\<close>

definition fetchGeneratedMeme_try :: "env \<Rightarrow> PostData option io" where
  "fetchGeneratedMeme_try E =
     io_bind (fetch E (generate_request E)) (\<lambda>response.
       if \<not> ok response then
         io_bind (io_of_option BodyRejected (body_text response)) (\<lambda>errorText.
           io_return None)
       else
         io_bind (io_of_option BodyRejected (body_arrayBuffer response)) (\<lambda>imageBuffer'.
         let contentType = or_str (headers_get response ''Content-Type'') (lit ''image/webp'') in
         io_bind (decode E (or_str (headers_get response ''X-Meme-Top-Text'') [])) (\<lambda>topText.
         io_bind (decode E (or_str (headers_get response ''X-Meme-Bottom-Text'') [])) (\<lambda>bottomText.
         io_bind (decode E (or_str (headers_get response ''X-Meme-Template'') [])) (\<lambda>templateName.
           io_return (Some
             \<lparr>text' = generated_postText topText bottomText,
              imageBuffer = Some imageBuffer',
              imageAlt = Str (join (lit '' - '') (generated_altParts templateName topText bottomText)),
              imageMimeType = Str contentType,
              imageUrl = Undefined, externalUrl = Undefined, externalTitle = Undefined,
              externalDescription = Undefined\<rparr>))))))"

definition fetchGeneratedMeme :: "env \<Rightarrow> PostData option io" where
  "fetchGeneratedMeme E = io_catch (fetchGeneratedMeme_try E) (\<lambda>error'. io_return None)"

definition random_request :: "env \<Rightarrow> request" where
  "random_request E =
     \<lparr>url = apiUrl (snaggConfig E) @ lit ''/random?count=1'',
      http_method = ''GET'',
      req_headers = (''Content-Type'', lit ''application/json'') # api_key_header E\<rparr>"

text \<open>\<open>fetch(u)\<close> with no options: a GET without headers of the caller's.\<close>

definition plain_request :: "jsval \<Rightarrow> request" where
  "plain_request u = \<lparr>url = to_string u, http_method = ''GET'', req_headers = []\<rparr>"

text \<open>\<open>json?.data?.memes\<close>.\<close>

definition json_memes :: "SnaggRandomResponse option \<Rightarrow> SnaggMeme list option" where
  "json_memes json =
     (case json of None \<Rightarrow> None
      | Some j \<Rightarrow> (case data j of None \<Rightarrow> None | Some d \<Rightarrow> memes d))"

text \<open>\<open>(meme.tags)?.slice(0, 3) || []\<close>, then the \<open>map\<close> to hashtags.\<close>

definition meme_hashtags :: "SnaggMeme \<Rightarrow> jsstring list" where
  "meme_hashtags meme =
     map (\<lambda>t. lit ''#'' @ strip_space t)
       (case tags meme of None \<Rightarrow> [] | Some ts \<Rightarrow> take 3 ts)"

definition random_postText :: "SnaggMeme \<Rightarrow> jsstring" where
  "random_postText meme =
     (let hashtags = meme_hashtags meme;
          postText = or_str (title meme) (lit ''Fresh meme from snagg.meme'')
      in if length hashtags > 0
         then postText @ newline @ newline @ join (lit '' '') hashtags
         else postText)"

text \<open>The body of the \<open>try\<close> block of \<open>fetchRandomMeme\<close>.\<close>

definition fetchRandomMeme_try :: "env \<Rightarrow> PostData option io" where
  "fetchRandomMeme_try E =
     io_bind (fetch E (random_request E)) (\<lambda>response.
       if \<not> ok response then io_return None
       else
         io_bind (io_of_option BodyRejected (body_json response)) (\<lambda>json.
         case json_memes json of
           None \<Rightarrow> io_return None
         | Some [] \<Rightarrow> io_return None
         | Some (meme # rest) \<Rightarrow>
             io_bind (fetch E (plain_request (image_url meme))) (\<lambda>imageResponse.
               if \<not> ok imageResponse then io_return None
               else
                 io_bind (io_of_option BodyRejected (body_arrayBuffer imageResponse))
                   (\<lambda>imageBuffer'.
                 let contentType =
                       or_str (headers_get imageResponse ''Content-Type'') (lit ''image/webp'')
                 in io_return (Some
                   \<lparr>text' = random_postText meme,
                    imageBuffer = Some imageBuffer',
                    imageAlt = js_or (js_or (ai_alt_text meme) (description meme)) (title meme),
                    imageMimeType = Str contentType,
                    imageUrl = Undefined, externalUrl = Undefined, externalTitle = Undefined,
                    externalDescription = Undefined\<rparr>)))))"

definition fetchRandomMeme :: "env \<Rightarrow> PostData option io" where
  "fetchRandomMeme E = io_catch (fetchRandomMeme_try E) (\<lambda>error'. io_return None)"


section \<open>The fallback resolver (\<open>getPostText\<close>, unified variant)\<close>

definition fallback_text :: jsstring where
  "fallback_text = lit ''Check out snagg.meme for fresh memes! '' @ fire"

definition getPostText :: "env \<Rightarrow> PostData io" where
  "getPostText E =
     io_bind (fetchGeneratedMeme E) (\<lambda>generated.
       case generated of
         Some g \<Rightarrow> io_return g
       | None \<Rightarrow>
           io_bind (fetchRandomMeme E) (\<lambda>random.
             case random of
               Some r \<Rightarrow> io_return r
             | None \<Rightarrow> io_return (text_only fallback_text)))"


section \<open>The single-strategy variants of \<open>getPostText\<close>\<close>

text \<open>
  The generate-only variant: the same request and caption handling, with a failure raised
  inside the \<open>try\<close> block and turned into the text-only fallback by its \<open>catch\<close>.
\<close>

definition getPostText_generate_try :: "env \<Rightarrow> PostData io" where
  "getPostText_generate_try E =
     io_bind (fetch E (generate_request E)) (\<lambda>response.
       if \<not> ok response then
         io_bind (io_of_option BodyRejected (body_text response)) (\<lambda>errorText.
           io_throw (Error (lit ''Failed to generate meme: '' @ to_decimal (status response)
             @ lit '' '' @ statusText response @ lit '' - '' @ errorText)))
       else
         io_bind (io_of_option BodyRejected (body_arrayBuffer response)) (\<lambda>imageBuffer'.
         io_bind (decode E (or_str (headers_get response ''X-Meme-Top-Text'') [])) (\<lambda>topText.
         io_bind (decode E (or_str (headers_get response ''X-Meme-Bottom-Text'') [])) (\<lambda>bottomText.
         io_bind (decode E (or_str (headers_get response ''X-Meme-Template'') [])) (\<lambda>templateName.
           io_return
             \<lparr>text' = generated_postText topText bottomText,
              imageBuffer = Some imageBuffer',
              imageAlt = Str (join (lit '' - '') (generated_altParts templateName topText bottomText)),
              imageMimeType = Undefined,
              imageUrl = Undefined, externalUrl = Undefined, externalTitle = Undefined,
              externalDescription = Undefined\<rparr>)))))"

definition getPostText_generate :: "env \<Rightarrow> PostData io" where
  "getPostText_generate E =
     io_catch (getPostText_generate_try E) (\<lambda>error'. io_return (text_only fallback_text))"

text \<open>
  The single-request random variant: one request to the listing, no image download; the
  record carries the image's address and the address of the meme's page.
\<close>

definition single_random_request :: "env \<Rightarrow> request" where
  "single_random_request E =
     \<lparr>url = apiUrl (snaggConfig E) @ lit ''/random'',
      http_method = ''GET'',
      req_headers = (''Content-Type'', lit ''application/json'') # api_key_header E\<rparr>"

definition getPostText_random_try :: "env \<Rightarrow> PostData io" where
  "getPostText_random_try E =
     io_bind (fetch E (single_random_request E)) (\<lambda>response.
       if \<not> ok response then
         io_throw (Error (lit ''Failed to fetch from snagg API: '' @ to_decimal (status response)
           @ lit '' '' @ statusText response))
       else
         io_bind (io_of_option BodyRejected (body_json response)) (\<lambda>result.
         case result of
           None \<Rightarrow> io_throw TypeError
         | Some res \<Rightarrow>
             if truthy (error res) then
               io_throw (Error (lit ''Snagg API error: '' @ to_string (error res)))
             else
               (case data res of
                  None \<Rightarrow> io_throw TypeError
                | Some d \<Rightarrow>
                    (case memes d of
                       None \<Rightarrow> io_throw TypeError
                     | Some [] \<Rightarrow> io_throw (Error (lit ''No memes returned from API''))
                     | Some (meme # rest) \<Rightarrow>
                         let memePageUrl = lit ''https://snagg.meme/meme/'' @ to_string (slug meme);
                             imageUrl' = js_or (watermarked_image_url meme) (image_url meme);
                             imageAlt' =
                               or_str (js_or (js_or (alt_text meme) (description meme)) (title meme))
                                 (lit ''Meme from snagg.meme'')
                         in io_return
                           \<lparr>text' = or_str (title meme) (lit ''Check out this meme from snagg.meme!''),
                            imageBuffer = None,
                            imageAlt = Str imageAlt',
                            imageMimeType = Undefined,
                            imageUrl = imageUrl',
                            externalUrl = Str memePageUrl,
                            externalTitle = Undefined,
                            externalDescription = Undefined\<rparr>))))"

definition getPostText_random :: "env \<Rightarrow> PostData io" where
  "getPostText_random E =
     io_catch (getPostText_random_try E)
       (\<lambda>error'. io_return (text_only (lit ''Check out snagg.meme for some great memes!'')))"


section \<open>Post assembly (\<open>Bot.post\<close>)\<close>

definition Bot_post :: "env \<Rightarrow> PostData \<Rightarrow> jsstring io" where
  "Bot_post E postData =
     io_bind (detectFacets E (text' postData)) (\<lambda>facets.
     let record' = \<lparr>rec_text = text' postData, rec_facets = facets, rec_embed = None\<rparr> in
     io_bind
       (if truthy (imageUrl postData) then
          io_bind (fetch E (plain_request (imageUrl postData))) (\<lambda>imageResponse.
            if \<not> ok imageResponse then
              io_throw (Error (lit ''Failed to fetch image: '' @ statusText imageResponse))
            else
              io_bind (io_of_option BodyRejected (body_arrayBuffer imageResponse))
                (\<lambda>imageBuffer'.
              let imageBlob =
                    \<lparr>blob_bytes = imageBuffer',
                     blob_type =
                       or_str (headers_get imageResponse ''content-type'') (lit ''image/jpeg'')\<rparr>
              in io_bind (uploadBlob E imageBlob) (\<lambda>uploaded.
                io_return (record'\<lparr>rec_embed :=
                  Some (EmbedImages
                    [\<lparr>image = uploaded, alt = or_str (imageAlt postData) []\<rparr>])\<rparr>))))
        else if truthy (externalUrl postData) then
          io_return (record'\<lparr>rec_embed :=
            Some (EmbedExternal
              \<lparr>uri = externalUrl postData,
               ext_title = or_str (externalTitle postData) [],
               ext_description = or_str (externalDescription postData) []\<rparr>)\<rparr>)
        else io_return record')
       (\<lambda>record''. agent_post E record''))"


section \<open>Properties of content records\<close>

text \<open>
  A field is present when it holds a non-empty string (a buffer, for the image bytes):
  this is the test that the code applies before it uses one. The media fields are the
  image bytes, the image address and the external address. A record has only its text set
  when each of its seven optional fields is missing.
\<close>

definition no_media :: "PostData \<Rightarrow> bool" where
  "no_media r \<longleftrightarrow>
     imageBuffer r = None \<and> \<not> truthy (imageUrl r) \<and> \<not> truthy (externalUrl r)"

definition only_text :: "PostData \<Rightarrow> bool" where
  "only_text r \<longleftrightarrow>
     imageBuffer r = None \<and> imageAlt r = Undefined \<and> imageMimeType r = Undefined \<and>
     imageUrl r = Undefined \<and> externalUrl r = Undefined \<and> externalTitle r = Undefined \<and>
     externalDescription r = Undefined"

definition content_invariant :: "PostData \<Rightarrow> bool" where
  "content_invariant r \<longleftrightarrow>
     (imageBuffer r = None \<or> imageUrl r = Undefined) \<and> (only_text r \<longleftrightarrow> no_media r)"

text \<open>The events that a computation adds to the trace, and the records among them that
  were submitted.\<close>

definition new_events :: "event list \<Rightarrow> 'a io \<Rightarrow> event list" where
  "new_events tr m = drop (length tr) (snd (m tr))"

fun posted :: "event list \<Rightarrow> post_record list" where
  "posted [] = []"
| "posted (Post r # es) = r # posted es"
| "posted (e # es) = posted es"


section \<open>Example environments\<close>

text \<open>
  A network whose answers are scripted: the n-th call of the run is answered by the n-th
  entry, and a call beyond the script is rejected.
\<close>

definition scripted :: "response option list \<Rightarrow> event list \<Rightarrow> request \<Rightarrow> response option" where
  "scripted answers tr req = (if length tr < length answers then answers ! length tr else None)"

text \<open>
  A stand-in for \<open>decodeURIComponent\<close> in the examples: it agrees with the built-in on
  strings without a percent sign, which decode to themselves, and on strings that end in a
  lone percent sign, which are malformed; the examples use no other strings.
\<close>

definition decode_plain :: "jsstring \<Rightarrow> jsstring option" where
  "decode_plain s = (if 0x25 \<in> set s then None else Some s)"

definition example_env :: "response option list \<Rightarrow> env" where
  "example_env answers =
     \<lparr>snaggConfig = \<lparr>apiUrl = lit ''https://snagg.meme/api/v1'', apiKey = Str (lit ''test-key'')\<rparr>,
      fetch_answer = scripted answers,
      decodeURIComponent = decode_plain,
      detectFacets_answer = (\<lambda>tr t. Some None),
      uploadBlob_answer = (\<lambda>tr b. Some (BlobRef (lit ''cid''))),
      post_answer = (\<lambda>tr r. Some (lit ''at://post/1''))\<rparr>"

definition image_response :: "(string \<times> jsstring) list \<Rightarrow> response" where
  "image_response hs =
     \<lparr>ok = True, status = 200, statusText = lit ''OK'', headers = map_of hs,
      body_text = None, body_arrayBuffer = Some [1, 2, 3], body_json = None\<rparr>"

definition error_response :: response where
  "error_response =
     \<lparr>ok = False, status = 500, statusText = lit ''Internal Server Error'',
      headers = (\<lambda>name. None),
      body_text = Some (lit ''error''), body_arrayBuffer = None, body_json = None\<rparr>"

definition listing_response :: "SnaggMeme list \<Rightarrow> response" where
  "listing_response ms =
     \<lparr>ok = True, status = 200, statusText = lit ''OK'', headers = (\<lambda>name. None),
      body_text = None, body_arrayBuffer = None,
      body_json = Some (Some \<lparr>data = Some \<lparr>memes = Some ms\<rparr>, error = Null\<rparr>)\<rparr>"

definition example_meme :: SnaggMeme where
  "example_meme =
     \<lparr>title = Str (lit ''Test Meme''), slug = Str (lit ''test-meme''),
      description = Str (lit ''Description''),
      image_url = Str (lit ''https://cdn.snagg.meme/original.webp''),
      watermarked_image_url = Str (lit ''https://cdn.snagg.meme/watermarked.webp''),
      alt_text = Undefined, ai_alt_text = Str (lit ''A funny meme''),
      tags = Some [lit ''funny'', lit ''dank meme'']\<rparr>"

definition untitled_meme :: SnaggMeme where
  "untitled_meme =
     \<lparr>title = Str [], slug = Str (lit ''untitled''), description = Null,
      image_url = Str (lit ''https://cdn.snagg.meme/original.webp''),
      watermarked_image_url = Undefined, alt_text = Undefined, ai_alt_text = Undefined,
      tags = Some []\<rparr>"

definition generated_response :: response where
  "generated_response =
     image_response
       [(''Content-Type'', lit ''image/webp''),
        (''X-Meme-Top-Text'', lit ''WHEN THE CODE''),
        (''X-Meme-Bottom-Text'', lit ''FINALLY COMPILES''),
        (''X-Meme-Template'', lit ''Drake'')]"


definition generated_record :: PostData where
  "generated_record =
     \<lparr>text' = lit ''WHEN THE CODE / FINALLY COMPILES'',
      imageBuffer = Some [1, 2, 3],
      imageAlt = Str (lit ''Meme - (Drake) - Top text: '' @ dquote @ lit ''WHEN THE CODE'' @ dquote
        @ lit '' - Bottom text: '' @ dquote @ lit ''FINALLY COMPILES'' @ dquote),
      imageMimeType = Str (lit ''image/webp''),
      imageUrl = Undefined, externalUrl = Undefined, externalTitle = Undefined,
      externalDescription = Undefined\<rparr>"

definition random_record :: PostData where
  "random_record =
     \<lparr>text' = lit ''Test Meme'' @ newline @ newline @ lit ''#funny #dankmeme'',
      imageBuffer = Some [1, 2, 3],
      imageAlt = Str (lit ''A funny meme''),
      imageMimeType = Str (lit ''image/webp''),
      imageUrl = Undefined, externalUrl = Undefined, externalTitle = Undefined,
      externalDescription = Undefined\<rparr>"

definition untitled_record :: PostData where
  "untitled_record =
     \<lparr>text' = lit ''Fresh meme from snagg.meme'',
      imageBuffer = Some [1, 2, 3],
      imageAlt = Str [],
      imageMimeType = Str (lit ''image/webp''),
      imageUrl = Undefined, externalUrl = Undefined, externalTitle = Undefined,
      externalDescription = Undefined\<rparr>"

text \<open>
  Three runs: generation succeeds; generation fails and the listing and its image are
  served; everything fails.
\<close>

definition env_generated :: env where
  "env_generated = example_env [Some generated_response]"

definition env_random :: env where
  "env_random =
     example_env
       [Some error_response, Some (listing_response [example_meme]), Some (image_response [])]"

definition env_down :: env where
  "env_down = example_env []"


text \<open>
  Further runs of the strategies: a caption header with a malformed escape, an empty
  listing, a listing whose image cannot be downloaded, a listing entry with an empty title
  and no tags, and a run of the single-request variant.
\<close>

definition env_bad_escape :: env where
  "env_bad_escape = example_env [Some (image_response [(''X-Meme-Top-Text'', lit ''100%'')])]"

definition env_empty_listing :: env where
  "env_empty_listing = example_env [Some (listing_response [])]"

definition env_image_missing :: env where
  "env_image_missing = example_env [Some (listing_response [example_meme]), Some error_response]"

definition env_untitled :: env where
  "env_untitled = example_env [Some (listing_response [untitled_meme]), Some (image_response [])]"

definition env_single :: env where
  "env_single = example_env [Some (listing_response [example_meme])]"

definition single_record :: PostData where
  "single_record =
     \<lparr>text' = lit ''Test Meme'',
      imageBuffer = None,
      imageAlt = Str (lit ''Description''),
      imageMimeType = Undefined,
      imageUrl = Str (lit ''https://cdn.snagg.meme/watermarked.webp''),
      externalUrl = Str (lit ''https://snagg.meme/meme/test-meme''),
      externalTitle = Undefined,
      externalDescription = Undefined\<rparr>"

text \<open>
  Runs of \<open>Bot.post\<close>. Its first call is the facet detection, so the image request is the
  second call of the run and is answered by the second entry of the script.
\<close>

definition env_post_ok :: env where
  "env_post_ok = example_env [None, Some (image_response [])]"

definition env_post_image_missing :: env where
  "env_post_image_missing = example_env [None, Some error_response]"

definition env_post_upload_fails :: env where
  "env_post_upload_fails =
     (example_env [None, Some (image_response [])])\<lparr>uploadBlob_answer := (\<lambda>tr b. None)\<rparr>"

definition image_post :: post_record where
  "image_post =
     \<lparr>rec_text = lit ''Test Meme'', rec_facets = None,
      rec_embed = Some (EmbedImages
        [\<lparr>image = BlobRef (lit ''cid''), alt = lit ''Description''\<rparr>])\<rparr>"

definition text_post :: post_record where
  "text_post = \<lparr>rec_text = fallback_text, rec_facets = None, rec_embed = None\<rparr>"

definition link_record :: PostData where
  "link_record =
     (text_only (lit ''Test Meme''))
       \<lparr>externalUrl := Str (lit ''https://snagg.meme/meme/test-meme''),
        externalTitle := Str (lit ''snagg.meme'')\<rparr>"

definition link_post :: post_record where
  "link_post =
     \<lparr>rec_text = lit ''Test Meme'', rec_facets = None,
      rec_embed = Some (EmbedExternal
        \<lparr>uri = Str (lit ''https://snagg.meme/meme/test-meme''),
         ext_title = lit ''snagg.meme'', ext_description = []\<rparr>)\<rparr>"


text \<open>
  A run for a given listing entry: the listing with that entry alone, then an image. The
  entries exercise the tiers of the alt text; the last one has an address of its image and
  nothing else. A response to the generation request whose body is JSON, not an image.
\<close>

definition env_listing :: "SnaggMeme \<Rightarrow> env" where
  "env_listing m = example_env [Some (listing_response [m]), Some (image_response [])]"

definition described_meme :: SnaggMeme where
  "described_meme = example_meme\<lparr>ai_alt_text := Null\<rparr>"

definition titled_meme :: SnaggMeme where
  "titled_meme = example_meme\<lparr>ai_alt_text := Undefined, description := Null\<rparr>"

definition alt_meme :: SnaggMeme where
  "alt_meme = example_meme\<lparr>alt_text := Str (lit ''A detailed description'')\<rparr>"

definition bare_meme :: SnaggMeme where
  "bare_meme =
     \<lparr>title = Undefined, slug = Undefined, description = Undefined,
      image_url = Str (lit ''https://cdn.snagg.meme/original.webp''),
      watermarked_image_url = Undefined, alt_text = Undefined, ai_alt_text = Undefined,
      tags = None\<rparr>"

definition bare_record :: PostData where
  "bare_record =
     \<lparr>text' = lit ''Fresh meme from snagg.meme'',
      imageBuffer = Some [1, 2, 3],
      imageAlt = Undefined,
      imageMimeType = Str (lit ''image/webp''),
      imageUrl = Undefined, externalUrl = Undefined, externalTitle = Undefined,
      externalDescription = Undefined\<rparr>"

definition json_body_response :: response where
  "json_body_response =
     \<lparr>ok = True, status = 200, statusText = lit ''OK'',
      headers = map_of [(''Content-Type'', lit ''application/json'')],
      body_text = Some (lit ''{}''), body_arrayBuffer = Some [0x7B, 0x7D],
      body_json = Some (Some \<lparr>data = None, error = Null\<rparr>)\<rparr>"

definition json_generated_record :: PostData where
  "json_generated_record =
     \<lparr>text' = lit ''Fresh meme from snagg.meme '' @ fire,
      imageBuffer = Some [0x7B, 0x7D],
      imageAlt = Str (lit ''Meme''),
      imageMimeType = Str (lit ''application/json''),
      imageUrl = Undefined, externalUrl = Undefined, externalTitle = Undefined,
      externalDescription = Undefined\<rparr>"

definition single_untitled_record :: PostData where
  "single_untitled_record =
     \<lparr>text' = lit ''Check out this meme from snagg.meme!'',
      imageBuffer = None,
      imageAlt = Str (lit ''Meme from snagg.meme''),
      imageMimeType = Undefined,
      imageUrl = Str (lit ''https://cdn.snagg.meme/original.webp''),
      externalUrl = Str (lit ''https://snagg.meme/meme/untitled''),
      externalTitle = Undefined,
      externalDescription = Undefined\<rparr>"


section \<open>Basic facts about the strategies\<close>

lemmas io_defs =
  io_return_def io_throw_def io_bind_def io_catch_def io_of_option_def fetch_def decode_def

lemmas example_defs =
  example_env_def scripted_def decode_plain_def image_response_def error_response_def
  listing_response_def generated_response_def headers_get_def generate_request_def
  random_request_def single_random_request_def plain_request_def api_key_header_def
  env_generated_def env_random_def env_down_def env_bad_escape_def env_empty_listing_def
  env_image_missing_def env_untitled_def env_single_def env_post_ok_def
  env_post_image_missing_def env_post_upload_fails_def env_listing_def

lemmas agent_defs = detectFacets_def uploadBlob_def agent_post_def

lemmas strategy_defs =
  fetchGeneratedMeme_def fetchGeneratedMeme_try_def fetchRandomMeme_def fetchRandomMeme_try_def

lemma fetchGeneratedMeme_trace:
  "snd (fetchGeneratedMeme E tr) = tr @ [Fetch (generate_request E)]"
  by (simp add: fetchGeneratedMeme_def fetchGeneratedMeme_try_def io_defs Let_def
      split: option.splits sum.splits prod.splits)

lemma fetchGeneratedMeme_no_throw:
  "\<exists>r. fst (fetchGeneratedMeme E tr) = Inr r"
  by (simp add: fetchGeneratedMeme_def fetchGeneratedMeme_try_def io_defs Let_def
      split: option.splits sum.splits prod.splits)

lemma fetchRandomMeme_no_throw:
  "\<exists>r. fst (fetchRandomMeme E tr) = Inr r"
  by (simp add: fetchRandomMeme_def fetchRandomMeme_try_def io_defs Let_def
      split: option.splits sum.splits prod.splits list.splits)

lemma fetchRandomMeme_trace:
  "\<exists>rest. snd (fetchRandomMeme E tr) = tr @ Fetch (random_request E) # rest"
  by (simp add: fetchRandomMeme_def fetchRandomMeme_try_def io_defs Let_def
      split: option.splits sum.splits prod.splits list.splits)

text \<open>When each strategy succeeds, and with which record.\<close>

lemma fetchGeneratedMeme_Some_iff:
  "fst (fetchGeneratedMeme E tr) = Inr (Some r) \<longleftrightarrow>
     (\<exists>response buf topText bottomText templateName.
        fetch_answer E tr (generate_request E) = Some response \<and> ok response \<and>
        body_arrayBuffer response = Some buf \<and>
        decodeURIComponent E (or_str (headers_get response ''X-Meme-Top-Text'') []) = Some topText \<and>
        decodeURIComponent E (or_str (headers_get response ''X-Meme-Bottom-Text'') []) = Some bottomText \<and>
        decodeURIComponent E (or_str (headers_get response ''X-Meme-Template'') []) = Some templateName \<and>
        r = \<lparr>text' = generated_postText topText bottomText,
              imageBuffer = Some buf,
              imageAlt = Str (join (lit '' - '') (generated_altParts templateName topText bottomText)),
              imageMimeType = Str (or_str (headers_get response ''Content-Type'') (lit ''image/webp'')),
              imageUrl = Undefined, externalUrl = Undefined, externalTitle = Undefined,
              externalDescription = Undefined\<rparr>)"
  by (auto simp add: fetchGeneratedMeme_def fetchGeneratedMeme_try_def io_defs Let_def
      split: option.splits sum.splits prod.splits)

lemma fetchRandomMeme_Some_iff:
  "fst (fetchRandomMeme E tr) = Inr (Some r) \<longleftrightarrow>
     (\<exists>response json meme rest imageResponse buf.
        fetch_answer E tr (random_request E) = Some response \<and> ok response \<and>
        body_json response = Some json \<and> json_memes json = Some (meme # rest) \<and>
        fetch_answer E (tr @ [Fetch (random_request E)]) (plain_request (image_url meme))
          = Some imageResponse \<and>
        ok imageResponse \<and> body_arrayBuffer imageResponse = Some buf \<and>
        r = \<lparr>text' = random_postText meme,
              imageBuffer = Some buf,
              imageAlt = js_or (js_or (ai_alt_text meme) (description meme)) (title meme),
              imageMimeType =
                Str (or_str (headers_get imageResponse ''Content-Type'') (lit ''image/webp'')),
              imageUrl = Undefined, externalUrl = Undefined, externalTitle = Undefined,
              externalDescription = Undefined\<rparr>)"
  by (auto simp add: fetchRandomMeme_def fetchRandomMeme_try_def io_defs Let_def
      split: option.splits sum.splits prod.splits list.splits)

text \<open>When each strategy returns null.\<close>

lemma fetchGeneratedMeme_None_iff:
  "fst (fetchGeneratedMeme E tr) = Inr None \<longleftrightarrow>
     (case fetch_answer E tr (generate_request E) of
        None \<Rightarrow> True
      | Some response \<Rightarrow>
          \<not> ok response \<or> body_arrayBuffer response = None \<or>
          decodeURIComponent E (or_str (headers_get response ''X-Meme-Top-Text'') []) = None \<or>
          decodeURIComponent E (or_str (headers_get response ''X-Meme-Bottom-Text'') []) = None \<or>
          decodeURIComponent E (or_str (headers_get response ''X-Meme-Template'') []) = None)"
  by (auto simp add: strategy_defs io_defs Let_def split: option.splits sum.splits prod.splits)

lemma fetchRandomMeme_None_iff:
  "fst (fetchRandomMeme E tr) = Inr None \<longleftrightarrow>
     (case fetch_answer E tr (random_request E) of
        None \<Rightarrow> True
      | Some response \<Rightarrow>
          \<not> ok response \<or>
          (case body_json response of
             None \<Rightarrow> True
           | Some json \<Rightarrow>
               (case json_memes json of
                  None \<Rightarrow> True
                | Some [] \<Rightarrow> True
                | Some (meme # rest) \<Rightarrow>
                    (case fetch_answer E (tr @ [Fetch (random_request E)])
                            (plain_request (image_url meme)) of
                       None \<Rightarrow> True
                     | Some imageResponse \<Rightarrow>
                         \<not> ok imageResponse \<or> body_arrayBuffer imageResponse = None))))"
  by (auto simp add: strategy_defs io_defs Let_def
      split: option.splits sum.splits prod.splits list.splits)

text \<open>
  The resolver in terms of the outcomes of its two strategies. Neither strategy raises, so
  the resolver has no exceptional path of its own.
\<close>

lemma getPostText_unfold:
  "getPostText E tr =
     (case fst (fetchGeneratedMeme E tr) of
        Inr (Some g) \<Rightarrow> (Inr g, tr @ [Fetch (generate_request E)])
      | _ \<Rightarrow>
        (case fst (fetchRandomMeme E (tr @ [Fetch (generate_request E)])) of
           Inr (Some r) \<Rightarrow> Inr r
         | _ \<Rightarrow> Inr (text_only fallback_text),
         snd (fetchRandomMeme E (tr @ [Fetch (generate_request E)]))))"
proof -
  obtain g where g: "fetchGeneratedMeme E tr = (Inr g, tr @ [Fetch (generate_request E)])"
    using fetchGeneratedMeme_no_throw [of E tr] fetchGeneratedMeme_trace [of E tr]
    by (metis prod.collapse)
  obtain r tr' where r: "fetchRandomMeme E (tr @ [Fetch (generate_request E)]) = (Inr r, tr')"
    using fetchRandomMeme_no_throw [of E "tr @ [Fetch (generate_request E)]"]
    by (metis prod.collapse)
  show ?thesis
    by (simp add: getPostText_def io_bind_def io_return_def g r split: option.splits)
qed

lemma requests_distinct: "generate_request E \<noteq> random_request E"
  by (simp add: generate_request_def random_request_def)

text \<open>The three example runs, evaluated.\<close>

lemma env_generated_run:
  "fetchGeneratedMeme env_generated [] =
     (Inr (Some generated_record), [Fetch (generate_request env_generated)])"
  by (simp add: strategy_defs io_defs example_defs generated_postText_def generated_altParts_def
      generated_record_def lit_def dquote_def)

lemma env_random_generate_fails:
  "fetchGeneratedMeme env_random [] = (Inr None, [Fetch (generate_request env_random)])"
  by (simp add: strategy_defs io_defs example_defs)

lemma env_random_run:
  "fst (fetchRandomMeme env_random [Fetch (generate_request env_random)]) =
     Inr (Some random_record)"
  by (simp add: strategy_defs io_defs example_defs random_postText_def meme_hashtags_def
      example_meme_def json_memes_def js_or_def strip_space_def is_space_def random_record_def
      lit_def newline_def)

lemma env_down_generate_fails:
  "fetchGeneratedMeme env_down [] = (Inr None, [Fetch (generate_request env_down)])"
  by (simp add: strategy_defs io_defs example_defs)

lemma env_down_random_fails:
  "fst (fetchRandomMeme env_down [Fetch (generate_request env_down)]) = Inr None"
  by (simp add: strategy_defs io_defs example_defs)


lemma env_untitled_run:
  "fst (fetchRandomMeme env_untitled []) = Inr (Some untitled_record)"
  by (simp add: strategy_defs io_defs example_defs random_postText_def meme_hashtags_def
      untitled_meme_def json_memes_def js_or_def untitled_record_def lit_def)

lemma env_generated_getPostText: "fst (getPostText env_generated []) = Inr generated_record"
  by (simp add: getPostText_unfold env_generated_run)

lemma env_down_getPostText: "fst (getPostText env_down []) = Inr (text_only fallback_text)"
  by (simp add: getPostText_unfold env_down_generate_fails env_down_random_fails)

section \<open>The fallback chain\<close>

text \<open>
  Claim C1. The resolver runs the generate strategy first: whatever happens, the first call
  that it adds to the trace is the generation request. When the generate strategy returns a
  record, that record is the result and the generation request is the only call of the run,
  so the random strategy, whose first action is the listing request, has not been invoked.
  When the generate strategy returns null, the random strategy runs next, starting from the
  trace that the generate strategy left: its listing request directly follows the
  generation request, and a record that it returns is the result.
\<close>

theorem getPostText_priority_order:
  "(\<exists>rest. new_events tr (getPostText E) = Fetch (generate_request E) # rest) \<and>
   (\<forall>g. fst (fetchGeneratedMeme E tr) = Inr (Some g) \<longrightarrow>
      fst (getPostText E tr) = Inr g \<and>
      new_events tr (getPostText E) = [Fetch (generate_request E)] \<and>
      Fetch (random_request E) \<notin> set (new_events tr (getPostText E))) \<and>
   (fst (fetchGeneratedMeme E tr) = Inr None \<longrightarrow>
      snd (getPostText E tr) = snd (fetchRandomMeme E (snd (fetchGeneratedMeme E tr))) \<and>
      (\<exists>rest. new_events tr (getPostText E)
         = Fetch (generate_request E) # Fetch (random_request E) # rest) \<and>
      (\<forall>r. fst (fetchRandomMeme E (snd (fetchGeneratedMeme E tr))) = Inr (Some r) \<longrightarrow>
         fst (getPostText E tr) = Inr r))"
proof -
  let ?tr1 = "tr @ [Fetch (generate_request E)]"
  obtain rest where rest: "snd (fetchRandomMeme E ?tr1) = ?tr1 @ Fetch (random_request E) # rest"
    using fetchRandomMeme_trace [of E ?tr1] by blast
  have a: "\<exists>rest. new_events tr (getPostText E) = Fetch (generate_request E) # rest"
    by (rule sum.exhaust [of "fst (fetchGeneratedMeme E tr)"])
       (auto simp add: new_events_def getPostText_unfold rest split: option.splits)
  have b: "fst (getPostText E tr) = Inr g \<and>
      new_events tr (getPostText E) = [Fetch (generate_request E)] \<and>
      Fetch (random_request E) \<notin> set (new_events tr (getPostText E))"
    if "fst (fetchGeneratedMeme E tr) = Inr (Some g)" for g
    using that requests_distinct [of E]
    by (auto simp add: new_events_def getPostText_unfold)
  have c: "snd (getPostText E tr) = snd (fetchRandomMeme E (snd (fetchGeneratedMeme E tr))) \<and>
      (\<exists>rest. new_events tr (getPostText E)
         = Fetch (generate_request E) # Fetch (random_request E) # rest) \<and>
      (\<forall>r. fst (fetchRandomMeme E (snd (fetchGeneratedMeme E tr))) = Inr (Some r) \<longrightarrow>
         fst (getPostText E tr) = Inr r)"
    if "fst (fetchGeneratedMeme E tr) = Inr None"
    using that
    by (auto simp add: new_events_def getPostText_unfold fetchGeneratedMeme_trace rest)
  from a b c show ?thesis by blast
qed

theorem getPostText_priority_order_witness:
  "fst (fetchGeneratedMeme env_generated []) = Inr (Some generated_record) \<and>
   fst (getPostText env_generated []) = Inr generated_record \<and>
   new_events [] (getPostText env_generated) = [Fetch (generate_request env_generated)] \<and>
   Fetch (random_request env_generated) \<notin> set (new_events [] (getPostText env_generated)) \<and>
   fst (fetchGeneratedMeme env_random []) = Inr None \<and>
   fst (fetchRandomMeme env_random (snd (fetchGeneratedMeme env_random [])))
     = Inr (Some random_record) \<and>
   fst (getPostText env_random []) = Inr random_record"
  using getPostText_priority_order [where E = env_generated and tr = "[]"]
    getPostText_priority_order [where E = env_random and tr = "[]"]
    env_generated_run env_random_generate_fails env_random_run
  by (simp add: requests_distinct [THEN not_sym])

text \<open>
  Claim C5. The resolver always returns a record and never raises. When the generate
  strategy and then the random strategy both return null, the record returned has the
  fixed fallback string as its text, character for character (the literal ends in the fire
  emoji, two UTF-16 code units), and none of its optional fields is set, so it carries no
  media.
\<close>

theorem getPostText_total_exhaustion:
  "(\<exists>r. fst (getPostText E tr) = Inr r) \<and>
   (fst (fetchGeneratedMeme E tr) = Inr None \<and>
    fst (fetchRandomMeme E (snd (fetchGeneratedMeme E tr))) = Inr None \<longrightarrow>
      (\<exists>r. fst (getPostText E tr) = Inr r \<and>
         text' r = lit ''Check out snagg.meme for fresh memes! '' @ [0xD83D, 0xDD25] \<and>
         only_text r \<and> no_media r))"
proof -
  have "\<exists>r. fst (getPostText E tr) = Inr r"
    by (simp add: getPostText_unfold split: sum.splits option.splits)
  moreover have "\<exists>r. fst (getPostText E tr) = Inr r \<and>
         text' r = lit ''Check out snagg.meme for fresh memes! '' @ [0xD83D, 0xDD25] \<and>
         only_text r \<and> no_media r"
    if "fst (fetchGeneratedMeme E tr) = Inr None"
      and "fst (fetchRandomMeme E (snd (fetchGeneratedMeme E tr))) = Inr None"
    using that
    by (simp add: getPostText_unfold fetchGeneratedMeme_trace text_only_def fallback_text_def
        fire_def only_text_def no_media_def)
  ultimately show ?thesis by blast
qed

theorem getPostText_total_exhaustion_witness:
  "fst (fetchGeneratedMeme env_down []) = Inr None \<and>
   fst (fetchRandomMeme env_down (snd (fetchGeneratedMeme env_down []))) = Inr None \<and>
   (\<exists>r. fst (getPostText env_down []) = Inr r \<and>
      text' r = lit ''Check out snagg.meme for fresh memes! '' @ [0xD83D, 0xDD25] \<and>
      only_text r \<and> no_media r)"
  using getPostText_total_exhaustion [where E = env_down and tr = "[]"]
    env_down_generate_fails env_down_random_fails
  by simp


section \<open>Failure is a value\<close>

text \<open>
  Claim C6, as amended. Neither strategy ever raises: whatever the network answers, the
  result is a record or null. The result is null in each of the following cases, which are
  the failures that the code detects. For the generate
  strategy: the request is rejected (network error); the response is not ok; the body cannot
  be read; one of the three caption headers has a malformed escape sequence. For the random
  strategy: the listing request is rejected; the listing response is not ok; its body is
  not JSON; the body has no \<open>data.memes\<close>, or an empty one; the image request is rejected,
  is answered by a response that is not ok, or has a body that cannot be read.
\<close>

theorem strategies_fail_with_null:
  "(\<exists>r. fst (fetchGeneratedMeme E tr) = Inr r) \<and>
   (\<exists>r. fst (fetchRandomMeme E tr) = Inr r) \<and>
   (fetch_answer E tr (generate_request E) = None \<longrightarrow>
      fst (fetchGeneratedMeme E tr) = Inr None) \<and>
   (\<forall>response.
      fetch_answer E tr (generate_request E) = Some response \<and>
      (\<not> ok response \<or> body_arrayBuffer response = None \<or>
       decodeURIComponent E (or_str (headers_get response ''X-Meme-Top-Text'') []) = None \<or>
       decodeURIComponent E (or_str (headers_get response ''X-Meme-Bottom-Text'') []) = None \<or>
       decodeURIComponent E (or_str (headers_get response ''X-Meme-Template'') []) = None) \<longrightarrow>
      fst (fetchGeneratedMeme E tr) = Inr None) \<and>
   (fetch_answer E tr (random_request E) = None \<longrightarrow>
      fst (fetchRandomMeme E tr) = Inr None) \<and>
   (\<forall>response.
      fetch_answer E tr (random_request E) = Some response \<and>
      (\<not> ok response \<or> body_json response = None \<or>
       (\<exists>json. body_json response = Some json \<and>
          (json_memes json = None \<or> json_memes json = Some []))) \<longrightarrow>
      fst (fetchRandomMeme E tr) = Inr None) \<and>
   (\<forall>response json meme rest.
      fetch_answer E tr (random_request E) = Some response \<and> ok response \<and>
      body_json response = Some json \<and> json_memes json = Some (meme # rest) \<and>
      (fetch_answer E (tr @ [Fetch (random_request E)]) (plain_request (image_url meme)) = None \<or>
       (\<exists>imageResponse.
          fetch_answer E (tr @ [Fetch (random_request E)]) (plain_request (image_url meme))
            = Some imageResponse \<and>
          (\<not> ok imageResponse \<or> body_arrayBuffer imageResponse = None))) \<longrightarrow>
      fst (fetchRandomMeme E tr) = Inr None)"
proof -
  have g: "\<exists>r. fst (fetchGeneratedMeme E tr) = Inr r"
    by (rule fetchGeneratedMeme_no_throw)
  have r: "\<exists>r. fst (fetchRandomMeme E tr) = Inr r"
    by (rule fetchRandomMeme_no_throw)
  have g1: "fetch_answer E tr (generate_request E) = None \<longrightarrow>
      fst (fetchGeneratedMeme E tr) = Inr None"
    by (simp add: fetchGeneratedMeme_None_iff)
  have g2: "\<forall>response.
      fetch_answer E tr (generate_request E) = Some response \<and>
      (\<not> ok response \<or> body_arrayBuffer response = None \<or>
       decodeURIComponent E (or_str (headers_get response ''X-Meme-Top-Text'') []) = None \<or>
       decodeURIComponent E (or_str (headers_get response ''X-Meme-Bottom-Text'') []) = None \<or>
       decodeURIComponent E (or_str (headers_get response ''X-Meme-Template'') []) = None) \<longrightarrow>
      fst (fetchGeneratedMeme E tr) = Inr None"
    by (auto simp add: fetchGeneratedMeme_None_iff)
  have r1: "fetch_answer E tr (random_request E) = None \<longrightarrow>
      fst (fetchRandomMeme E tr) = Inr None"
    by (simp add: fetchRandomMeme_None_iff)
  have r2: "\<forall>response.
      fetch_answer E tr (random_request E) = Some response \<and>
      (\<not> ok response \<or> body_json response = None \<or>
       (\<exists>json. body_json response = Some json \<and>
          (json_memes json = None \<or> json_memes json = Some []))) \<longrightarrow>
      fst (fetchRandomMeme E tr) = Inr None"
    by (auto simp add: fetchRandomMeme_None_iff)
  have r3: "\<forall>response json meme rest.
      fetch_answer E tr (random_request E) = Some response \<and> ok response \<and>
      body_json response = Some json \<and> json_memes json = Some (meme # rest) \<and>
      (fetch_answer E (tr @ [Fetch (random_request E)]) (plain_request (image_url meme)) = None \<or>
       (\<exists>imageResponse.
          fetch_answer E (tr @ [Fetch (random_request E)]) (plain_request (image_url meme))
            = Some imageResponse \<and>
          (\<not> ok imageResponse \<or> body_arrayBuffer imageResponse = None))) \<longrightarrow>
      fst (fetchRandomMeme E tr) = Inr None"
    by (auto simp add: fetchRandomMeme_None_iff)
  from g r g1 g2 r1 r2 r3 show ?thesis by (intro conjI)
qed

theorem strategies_fail_with_null_witness:
  "fetch_answer env_down [] (generate_request env_down) = None \<and>
   fst (fetchGeneratedMeme env_down []) = Inr None \<and>
   fetch_answer env_down [] (random_request env_down) = None \<and>
   fst (fetchRandomMeme env_down []) = Inr None \<and>
   fetch_answer env_random [] (generate_request env_random) = Some error_response \<and>
   \<not> ok error_response \<and>
   fst (fetchGeneratedMeme env_random []) = Inr None \<and>
   fetch_answer env_bad_escape [] (generate_request env_bad_escape)
     = Some (image_response [(''X-Meme-Top-Text'', lit ''100%'')]) \<and>
   decodeURIComponent env_bad_escape
     (or_str (headers_get (image_response [(''X-Meme-Top-Text'', lit ''100%'')])
        ''X-Meme-Top-Text'') []) = None \<and>
   fst (fetchGeneratedMeme env_bad_escape []) = Inr None \<and>
   fetch_answer env_empty_listing [] (random_request env_empty_listing)
     = Some (listing_response []) \<and>
   (\<exists>json. body_json (listing_response []) = Some json \<and> json_memes json = Some []) \<and>
   fst (fetchRandomMeme env_empty_listing []) = Inr None \<and>
   fetch_answer env_image_missing [Fetch (random_request env_image_missing)]
     (plain_request (image_url example_meme)) = Some error_response \<and>
   fst (fetchRandomMeme env_image_missing []) = Inr None \<and>
   fetch_answer env_random [] (random_request env_random) = Some error_response \<and>
   fst (fetchRandomMeme env_random []) = Inr None \<and>
   fetch_answer env_generated [] (random_request env_generated) = Some generated_response \<and>
   body_json generated_response = None \<and>
   fst (fetchRandomMeme env_generated []) = Inr None \<and>
   fetch_answer env_empty_listing [] (generate_request env_empty_listing)
     = Some (listing_response []) \<and>
   body_arrayBuffer (listing_response []) = None \<and>
   fst (fetchGeneratedMeme env_empty_listing []) = Inr None"
proof -
  have a: "fetch_answer env_down [] (generate_request env_down) = None"
    "fetch_answer env_down [] (random_request env_down) = None"
    by (simp_all add: example_defs)
  have b: "fetch_answer env_random [] (generate_request env_random) = Some error_response"
    "\<not> ok error_response"
    by (simp_all add: example_defs)
  have c: "fetch_answer env_bad_escape [] (generate_request env_bad_escape)
       = Some (image_response [(''X-Meme-Top-Text'', lit ''100%'')])"
    "decodeURIComponent env_bad_escape
       (or_str (headers_get (image_response [(''X-Meme-Top-Text'', lit ''100%'')])
          ''X-Meme-Top-Text'') []) = None"
    by (simp_all add: example_defs lit_def)
  have d: "fetch_answer env_empty_listing [] (random_request env_empty_listing)
       = Some (listing_response [])"
    "\<exists>json. body_json (listing_response []) = Some json \<and> json_memes json = Some []"
    by (simp_all add: example_defs json_memes_def)
  have e: "fetch_answer env_image_missing [] (random_request env_image_missing)
       = Some (listing_response [example_meme])"
    "ok (listing_response [example_meme])"
    "body_json (listing_response [example_meme])
       = Some (Some \<lparr>data = Some \<lparr>memes = Some [example_meme]\<rparr>, error = Null\<rparr>)"
    "json_memes (Some \<lparr>data = Some \<lparr>memes = Some [example_meme]\<rparr>, error = Null\<rparr>)
       = Some [example_meme]"
    "fetch_answer env_image_missing [Fetch (random_request env_image_missing)]
       (plain_request (image_url example_meme)) = Some error_response"
    by (simp_all add: example_defs json_memes_def)
  have f: "fetch_answer env_random [] (random_request env_random) = Some error_response"
    "fetch_answer env_generated [] (random_request env_generated) = Some generated_response"
    "body_json generated_response = None"
    "fetch_answer env_empty_listing [] (generate_request env_empty_listing)
       = Some (listing_response [])"
    "body_arrayBuffer (listing_response []) = None"
    by (simp_all add: example_defs)
  note t0 = strategies_fail_with_null [where E = env_generated and tr = "[]"]
  note t1 = strategies_fail_with_null [where E = env_down and tr = "[]"]
  note t2 = strategies_fail_with_null [where E = env_random and tr = "[]"]
  note t3 = strategies_fail_with_null [where E = env_bad_escape and tr = "[]"]
  note t4 = strategies_fail_with_null [where E = env_empty_listing and tr = "[]"]
  note t5 = strategies_fail_with_null [where E = env_image_missing and tr = "[]"]
  have "fst (fetchGeneratedMeme env_down []) = Inr None"
    "fst (fetchRandomMeme env_down []) = Inr None"
    using t1 a by blast+
  moreover have "fst (fetchGeneratedMeme env_random []) = Inr None"
    using t2 b by blast
  moreover have "fst (fetchGeneratedMeme env_bad_escape []) = Inr None"
    using t3 c by blast
  moreover have "fst (fetchRandomMeme env_empty_listing []) = Inr None"
    using t4 d by blast
  moreover have "fst (fetchRandomMeme env_image_missing []) = Inr None"
    using t5 e b(2) by (simp del: not_None_eq)
  moreover have "fst (fetchRandomMeme env_random []) = Inr None"
    using t2 f(1) b(2) by blast
  moreover have "fst (fetchRandomMeme env_generated []) = Inr None"
    using t0 f(2,3) by blast
  moreover have "fst (fetchGeneratedMeme env_empty_listing []) = Inr None"
    using t4 f(4,5) by blast
  ultimately show ?thesis
    using a b c d e f by simp
qed


text \<open>
  The claim as first stated has every malformed payload end in null. The strategies trust
  what they can read. A listing entry that has neither title nor tags, both required of an
  entry, is served with the default text; a response to the generation request whose body
  is JSON, with no caption header, is served as an image with the default caption.
\<close>

theorem contract_breaking_payload_counterexample:
  "title bare_meme = Undefined \<and> tags bare_meme = None \<and>
   fst (fetchRandomMeme (env_listing bare_meme) []) = Inr (Some bare_record) \<and>
   headers json_body_response ''Content-Type'' = Some (lit ''application/json'') \<and>
   fst (fetchGeneratedMeme (example_env [Some json_body_response]) [])
     = Inr (Some json_generated_record)"
  by (simp add: strategy_defs io_defs example_defs random_postText_def meme_hashtags_def
      bare_meme_def json_memes_def js_or_def bare_record_def json_body_response_def
      json_generated_record_def generated_postText_def generated_altParts_def lit_def fire_def)


section \<open>Text and alt text of the fetched records\<close>

lemma getPostText_generate_ok:
  assumes "fetch_answer E tr (generate_request E) = Some response" "ok response"
    "body_arrayBuffer response = Some buf"
    "decodeURIComponent E (or_str (headers_get response ''X-Meme-Top-Text'') []) = Some topText"
    "decodeURIComponent E (or_str (headers_get response ''X-Meme-Bottom-Text'') []) = Some bottomText"
    "decodeURIComponent E (or_str (headers_get response ''X-Meme-Template'') []) = Some templateName"
  shows "fst (getPostText_generate E tr) =
     Inr \<lparr>text' = generated_postText topText bottomText,
          imageBuffer = Some buf,
          imageAlt = Str (join (lit '' - '') (generated_altParts templateName topText bottomText)),
          imageMimeType = Undefined,
          imageUrl = Undefined, externalUrl = Undefined, externalTitle = Undefined,
          externalDescription = Undefined\<rparr>"
  using assms
  by (simp add: getPostText_generate_def getPostText_generate_try_def io_defs)

text \<open>
  Claim C7. Whenever the generate strategy returns a record, the response had a top and a
  bottom caption header that decode (a missing header counts as the empty string), and the
  text of the record is: top, the separator \<open>" / "\<close> and bottom when both decoded captions
  are non-empty; the non-empty one alone when exactly one is; and the fixed default string
  (which ends in the fire emoji) when both are empty. The resolver returns this record, and
  the generate-only variant of \<open>getPostText\<close> returns a record with the same text.
\<close>

theorem generated_text_from_captions:
  assumes "fst (fetchGeneratedMeme E tr) = Inr (Some r)"
  shows "\<exists>response topText bottomText.
     fetch_answer E tr (generate_request E) = Some response \<and>
     decodeURIComponent E (or_str (headers_get response ''X-Meme-Top-Text'') []) = Some topText \<and>
     decodeURIComponent E (or_str (headers_get response ''X-Meme-Bottom-Text'') []) = Some bottomText \<and>
     (topText \<noteq> [] \<and> bottomText \<noteq> [] \<longrightarrow> text' r = topText @ lit '' / '' @ bottomText) \<and>
     (topText \<noteq> [] \<and> bottomText = [] \<longrightarrow> text' r = topText) \<and>
     (topText = [] \<and> bottomText \<noteq> [] \<longrightarrow> text' r = bottomText) \<and>
     (topText = [] \<and> bottomText = [] \<longrightarrow>
        text' r = lit ''Fresh meme from snagg.meme '' @ [0xD83D, 0xDD25]) \<and>
     fst (getPostText E tr) = Inr r \<and>
     (\<exists>r'. fst (getPostText_generate E tr) = Inr r' \<and> text' r' = text' r)"
proof -
  from assms obtain response buf topText bottomText templateName where
    h: "fetch_answer E tr (generate_request E) = Some response" "ok response"
       "body_arrayBuffer response = Some buf"
       "decodeURIComponent E (or_str (headers_get response ''X-Meme-Top-Text'') []) = Some topText"
       "decodeURIComponent E (or_str (headers_get response ''X-Meme-Bottom-Text'') []) = Some bottomText"
       "decodeURIComponent E (or_str (headers_get response ''X-Meme-Template'') []) = Some templateName"
    and r: "text' r = generated_postText topText bottomText"
    unfolding fetchGeneratedMeme_Some_iff by auto
  have g: "fst (getPostText E tr) = Inr r"
    using assms by (simp add: getPostText_unfold)
  have v: "\<exists>r'. fst (getPostText_generate E tr) = Inr r' \<and> text' r' = text' r"
    using getPostText_generate_ok [OF h] r by simp
  show ?thesis
    using h(1,4,5) r g v by (auto simp add: generated_postText_def fire_def)
qed

theorem generated_text_from_captions_witness:
  "fst (fetchGeneratedMeme env_generated []) = Inr (Some generated_record) \<and>
   text' generated_record = lit ''WHEN THE CODE'' @ lit '' / '' @ lit ''FINALLY COMPILES'' \<and>
   fst (getPostText env_generated []) = Inr generated_record"
proof -
  have h: "fst (fetchGeneratedMeme env_generated []) = Inr (Some generated_record)"
    by (simp add: env_generated_run)
  from generated_text_from_captions [OF h] h show ?thesis
    by (auto simp add: generated_record_def lit_def)
qed

lemma or_str_truthy: "or_str v d = (if truthy v then to_string v else d)"
  by (cases v) simp_all

lemma random_postText_explicit:
  "random_postText meme =
     (let shown = (if truthy (title meme) then to_string (title meme)
                   else lit ''Fresh meme from snagg.meme'');
          ts = take 3 (case tags meme of None \<Rightarrow> [] | Some all_tags \<Rightarrow> all_tags)
      in if ts = [] then shown
         else shown @ [0x0A, 0x0A] @
              join [0x20] (map (\<lambda>t. 0x23 # filter (\<lambda>c. \<not> is_space c) t) ts))"
  by (cases "tags meme")
     (simp_all add: random_postText_def meme_hashtags_def or_str_truthy strip_space_def
       newline_def lit_def Let_def)

text \<open>A hashtag holds no white space.\<close>

lemma hashtag_no_space:
  "h \<in> set (meme_hashtags meme) \<Longrightarrow> c \<in> set h \<Longrightarrow> \<not> is_space c"
  by (auto simp add: meme_hashtags_def strip_space_def lit_def is_space_def
      split: option.splits)

text \<open>
  Claim C8, as amended. Whenever the random strategy returns a record, its text starts with
  the title of the first listing entry, or with the fixed default
  \<open>"Fresh meme from snagg.meme"\<close> when that title is missing, null or empty. At most three
  tags are used, the first three. When there is none, that is the whole text. Otherwise the
  text continues with two line feeds and the hashtags joined by single spaces, each hashtag
  being \<open>#\<close> followed by the tag with its white space removed.
\<close>

theorem random_text_title_and_hashtags:
  assumes "fst (fetchRandomMeme E tr) = Inr (Some r)"
  shows "\<exists>response json meme rest shown ts.
     fetch_answer E tr (random_request E) = Some response \<and>
     body_json response = Some json \<and> json_memes json = Some (meme # rest) \<and>
     shown = (if truthy (title meme) then to_string (title meme)
              else lit ''Fresh meme from snagg.meme'') \<and>
     ts = take 3 (case tags meme of None \<Rightarrow> [] | Some all_tags \<Rightarrow> all_tags) \<and>
     length ts \<le> 3 \<and>
     (ts = [] \<longrightarrow> text' r = shown) \<and>
     (ts \<noteq> [] \<longrightarrow>
        text' r = shown @ [0x0A, 0x0A] @
          join [0x20] (map (\<lambda>t. 0x23 # filter (\<lambda>c. \<not> is_space c) t) ts))"
proof -
  from assms obtain response json meme rest where
    h: "fetch_answer E tr (random_request E) = Some response"
       "body_json response = Some json" "json_memes json = Some (meme # rest)"
    and r: "text' r = random_postText meme"
    unfolding fetchRandomMeme_Some_iff by auto
  show ?thesis
    using h r by (simp add: random_postText_explicit Let_def)
qed

theorem random_text_title_and_hashtags_witness:
  "fst (fetchRandomMeme env_random (snd (fetchGeneratedMeme env_random [])))
     = Inr (Some random_record) \<and>
   text' random_record = lit ''Test Meme'' @ [0x0A, 0x0A] @ lit ''#funny #dankmeme''"
proof -
  have h: "fst (fetchRandomMeme env_random (snd (fetchGeneratedMeme env_random [])))
     = Inr (Some random_record)"
    by (simp add: env_random_generate_fails env_random_run)
  from random_text_title_and_hashtags [OF h] h show ?thesis
    by (simp add: random_record_def newline_def)
qed

text \<open>
  The claim as first stated takes the text to start with the title itself. A listing
  entry with an empty title and no tags is served, and the text of the record is the
  default string, not the (empty) title.
\<close>

theorem random_text_untitled_counterexample:
  "fst (fetchRandomMeme env_untitled []) = Inr (Some untitled_record) \<and>
   tags untitled_meme = Some [] \<and>
   text' untitled_record \<noteq> to_string (title untitled_meme)"
  by (simp add: env_untitled_run untitled_meme_def untitled_record_def lit_def)

text \<open>The record of the single-request variant, for a listing that parses.\<close>

lemma getPostText_random_parsed:
  assumes "fetch_answer E tr (single_random_request E) = Some response" "ok response"
    "body_json response = Some (Some res)" "\<not> truthy (error res)"
    "data res = Some d" "memes d = Some (meme # rest)"
  shows "fst (getPostText_random E tr) =
     Inr \<lparr>text' = or_str (title meme) (lit ''Check out this meme from snagg.meme!''),
          imageBuffer = None,
          imageAlt = Str (or_str (js_or (js_or (alt_text meme) (description meme)) (title meme))
                            (lit ''Meme from snagg.meme'')),
          imageMimeType = Undefined,
          imageUrl = js_or (watermarked_image_url meme) (image_url meme),
          externalUrl = Str (lit ''https://snagg.meme/meme/'' @ to_string (slug meme)),
          externalTitle = Undefined,
          externalDescription = Undefined\<rparr>"
  using assms
  by (simp add: getPostText_random_def getPostText_random_try_def io_defs Let_def)

text \<open>
  The single-request variant reads the field \<open>alt_text\<close> in place of \<open>ai_alt_text\<close> and
  has a fourth tier: a fixed string, used when the title is absent as well.
\<close>

lemma single_random_imageAlt_tiers:
  assumes "fetch_answer E tr (single_random_request E) = Some response" "ok response"
    "body_json response = Some (Some res)" "\<not> truthy (error res)"
    "data res = Some d" "memes d = Some (meme # rest)"
  shows "\<exists>r. fst (getPostText_random E tr) = Inr r \<and>
     imageAlt r =
       (if truthy (alt_text meme) then alt_text meme
        else if truthy (description meme) then description meme
        else if truthy (title meme) then title meme
        else Str (lit ''Meme from snagg.meme''))"
proof -
  have "Str (or_str v d) = (if truthy v then v else Str d)" for v d
    by (cases v) simp_all
  then show ?thesis
    using getPostText_random_parsed [OF assms] by (simp add: js_or_def)
qed

text \<open>Runs for a single listing entry.\<close>

lemma env_listing_random_Some:
  "\<exists>r. fst (fetchRandomMeme (env_listing m) []) = Inr (Some r)"
  unfolding fetchRandomMeme_Some_iff
  by (simp add: example_defs json_memes_def)

lemma env_listing_entry:
  "fetch_answer (env_listing m) [] (random_request (env_listing m)) = Some response \<Longrightarrow>
   body_json response = Some json \<Longrightarrow> json_memes json = Some (meme # rest) \<Longrightarrow> meme = m"
  by (auto simp add: example_defs json_memes_def)

lemma env_listing_single:
  "fetch_answer (env_listing m) [] (single_random_request (env_listing m))
     = Some (listing_response [m])"
  "ok (listing_response [m])"
  "body_json (listing_response [m]) = Some (Some \<lparr>data = Some \<lparr>memes = Some [m]\<rparr>, error = Null\<rparr>)"
  "\<not> truthy (error \<lparr>data = Some \<lparr>memes = Some [m]\<rparr>, error = Null\<rparr>)"
  "data \<lparr>data = Some \<lparr>memes = Some [m]\<rparr>, error = Null\<rparr> = Some \<lparr>memes = Some [m]\<rparr>"
  "memes \<lparr>memes = Some [m]\<rparr> = Some (m # [])"
  by (simp_all add: example_defs)

lemma fetchRandomMeme_imageAlt:
  assumes "fst (fetchRandomMeme E tr) = Inr (Some r)"
  shows "\<exists>response json meme rest.
     fetch_answer E tr (random_request E) = Some response \<and>
     body_json response = Some json \<and> json_memes json = Some (meme # rest) \<and>
     (truthy (ai_alt_text meme) \<longrightarrow> imageAlt r = ai_alt_text meme) \<and>
     (\<not> truthy (ai_alt_text meme) \<and> truthy (description meme) \<longrightarrow>
        imageAlt r = description meme) \<and>
     (\<not> truthy (ai_alt_text meme) \<and> \<not> truthy (description meme) \<longrightarrow>
        imageAlt r = title meme)"
proof -
  from assms obtain response json meme rest where
    h: "fetch_answer E tr (random_request E) = Some response"
       "body_json response = Some json" "json_memes json = Some (meme # rest)"
    and r: "imageAlt r = js_or (js_or (ai_alt_text meme) (description meme)) (title meme)"
    unfolding fetchRandomMeme_Some_iff by auto
  show ?thesis
    using h r by (auto simp add: js_or_def)
qed

text \<open>
  Claim C9, as amended. Whenever the random strategy returns a record, its alt text is
  taken from the first listing entry: the field \<open>ai_alt_text\<close> when that is present (a
  non-empty string); the field \<open>description\<close> when \<open>ai_alt_text\<close> is absent and
  \<open>description\<close> is present; and the title, whatever it holds, when both are absent. The
  single-request variant, for a listing that parses, follows the same order on the fields
  \<open>alt_text\<close>, \<open>description\<close> and \<open>title\<close>, each tier being taken when it is present
  and the tiers above it are absent, and ends in a fourth tier: when the title is absent as
  well, the alt text is the fixed string \<open>"Meme from snagg.meme"\<close>.
\<close>

theorem random_imageAlt_tiers:
  "(\<forall>r. fst (fetchRandomMeme E tr) = Inr (Some r) \<longrightarrow>
      (\<exists>response json meme rest.
         fetch_answer E tr (random_request E) = Some response \<and>
         body_json response = Some json \<and> json_memes json = Some (meme # rest) \<and>
         (truthy (ai_alt_text meme) \<longrightarrow> imageAlt r = ai_alt_text meme) \<and>
         (\<not> truthy (ai_alt_text meme) \<and> truthy (description meme) \<longrightarrow>
            imageAlt r = description meme) \<and>
         (\<not> truthy (ai_alt_text meme) \<and> \<not> truthy (description meme) \<longrightarrow>
            imageAlt r = title meme))) \<and>
   (\<forall>response res d meme rest.
      fetch_answer E tr (single_random_request E) = Some response \<and> ok response \<and>
      body_json response = Some (Some res) \<and> \<not> truthy (error res) \<and>
      data res = Some d \<and> memes d = Some (meme # rest) \<longrightarrow>
      (\<exists>r. fst (getPostText_random E tr) = Inr r \<and>
         (truthy (alt_text meme) \<longrightarrow> imageAlt r = alt_text meme) \<and>
         (\<not> truthy (alt_text meme) \<and> truthy (description meme) \<longrightarrow>
            imageAlt r = description meme) \<and>
         (\<not> truthy (alt_text meme) \<and> \<not> truthy (description meme) \<and> truthy (title meme) \<longrightarrow>
            imageAlt r = title meme) \<and>
         (\<not> truthy (alt_text meme) \<and> \<not> truthy (description meme) \<and> \<not> truthy (title meme) \<longrightarrow>
            imageAlt r = Str (lit ''Meme from snagg.meme''))))"
proof (intro conjI allI impI)
  fix r assume "fst (fetchRandomMeme E tr) = Inr (Some r)"
  then show "\<exists>response json meme rest.
         fetch_answer E tr (random_request E) = Some response \<and>
         body_json response = Some json \<and> json_memes json = Some (meme # rest) \<and>
         (truthy (ai_alt_text meme) \<longrightarrow> imageAlt r = ai_alt_text meme) \<and>
         (\<not> truthy (ai_alt_text meme) \<and> truthy (description meme) \<longrightarrow>
            imageAlt r = description meme) \<and>
         (\<not> truthy (ai_alt_text meme) \<and> \<not> truthy (description meme) \<longrightarrow>
            imageAlt r = title meme)"
    by (rule fetchRandomMeme_imageAlt)
next
  fix response res d meme rest
  assume "fetch_answer E tr (single_random_request E) = Some response \<and> ok response \<and>
      body_json response = Some (Some res) \<and> \<not> truthy (error res) \<and>
      data res = Some d \<and> memes d = Some (meme # rest)"
  then have h: "fetch_answer E tr (single_random_request E) = Some response" "ok response"
    "body_json response = Some (Some res)" "\<not> truthy (error res)"
    "data res = Some d" "memes d = Some (meme # rest)"
    by simp_all
  show "\<exists>r. fst (getPostText_random E tr) = Inr r \<and>
         (truthy (alt_text meme) \<longrightarrow> imageAlt r = alt_text meme) \<and>
         (\<not> truthy (alt_text meme) \<and> truthy (description meme) \<longrightarrow>
            imageAlt r = description meme) \<and>
         (\<not> truthy (alt_text meme) \<and> \<not> truthy (description meme) \<and> truthy (title meme) \<longrightarrow>
            imageAlt r = title meme) \<and>
         (\<not> truthy (alt_text meme) \<and> \<not> truthy (description meme) \<and> \<not> truthy (title meme) \<longrightarrow>
            imageAlt r = Str (lit ''Meme from snagg.meme''))"
    using single_random_imageAlt_tiers [OF h] by auto
qed

theorem random_imageAlt_tiers_witness:
  "(\<exists>r. fst (fetchRandomMeme (env_listing example_meme) []) = Inr (Some r) \<and>
        imageAlt r = Str (lit ''A funny meme'')) \<and>
   (\<exists>r. fst (fetchRandomMeme (env_listing described_meme) []) = Inr (Some r) \<and>
        imageAlt r = Str (lit ''Description'')) \<and>
   (\<exists>r. fst (fetchRandomMeme (env_listing titled_meme) []) = Inr (Some r) \<and>
        imageAlt r = Str (lit ''Test Meme'')) \<and>
   (\<exists>r. fst (getPostText_random (env_listing alt_meme) []) = Inr r \<and>
        imageAlt r = Str (lit ''A detailed description'')) \<and>
   (\<exists>r. fst (getPostText_random (env_listing example_meme) []) = Inr r \<and>
        imageAlt r = Str (lit ''Description'')) \<and>
   (\<exists>r. fst (getPostText_random (env_listing titled_meme) []) = Inr r \<and>
        imageAlt r = Str (lit ''Test Meme'')) \<and>
   (\<exists>r. fst (getPostText_random (env_listing untitled_meme) []) = Inr r \<and>
        imageAlt r = Str (lit ''Meme from snagg.meme''))"
proof -
  have unified: "\<exists>r. fst (fetchRandomMeme (env_listing m) []) = Inr (Some r) \<and>
      (truthy (ai_alt_text m) \<longrightarrow> imageAlt r = ai_alt_text m) \<and>
      (\<not> truthy (ai_alt_text m) \<and> truthy (description m) \<longrightarrow> imageAlt r = description m) \<and>
      (\<not> truthy (ai_alt_text m) \<and> \<not> truthy (description m) \<longrightarrow> imageAlt r = title m)" for m
  proof -
    obtain r where r: "fst (fetchRandomMeme (env_listing m) []) = Inr (Some r)"
      using env_listing_random_Some by blast
    with random_imageAlt_tiers [where E = "env_listing m" and tr = "[]"]
    obtain response json meme rest where
      h: "fetch_answer (env_listing m) [] (random_request (env_listing m)) = Some response"
         "body_json response = Some json" "json_memes json = Some (meme # rest)"
      and t: "truthy (ai_alt_text meme) \<longrightarrow> imageAlt r = ai_alt_text meme"
         "\<not> truthy (ai_alt_text meme) \<and> truthy (description meme) \<longrightarrow>
            imageAlt r = description meme"
         "\<not> truthy (ai_alt_text meme) \<and> \<not> truthy (description meme) \<longrightarrow>
            imageAlt r = title meme"
      by blast
    have "meme = m"
      using h by (rule env_listing_entry)
    with r t show ?thesis by blast
  qed
  have single: "\<exists>r. fst (getPostText_random (env_listing m) []) = Inr r \<and>
      (truthy (alt_text m) \<longrightarrow> imageAlt r = alt_text m) \<and>
      (\<not> truthy (alt_text m) \<and> truthy (description m) \<longrightarrow> imageAlt r = description m) \<and>
      (\<not> truthy (alt_text m) \<and> \<not> truthy (description m) \<and> truthy (title m) \<longrightarrow>
         imageAlt r = title m) \<and>
      (\<not> truthy (alt_text m) \<and> \<not> truthy (description m) \<and> \<not> truthy (title m) \<longrightarrow>
         imageAlt r = Str (lit ''Meme from snagg.meme''))" for m
    using random_imageAlt_tiers [where E = "env_listing m" and tr = "[]"]
      env_listing_single [of m]
    by blast
  from unified [of example_meme] unified [of described_meme] unified [of titled_meme]
    single [of alt_meme] single [of example_meme] single [of titled_meme]
    single [of untitled_meme]
  show ?thesis
    by (simp add: example_meme_def described_meme_def titled_meme_def alt_meme_def
        untitled_meme_def lit_def)
qed

text \<open>
  The claim as first stated ends the order in the title at both places. In the
  single-request variant an entry with an empty title, no \<open>alt_text\<close> and no description
  gets the fixed string as its alt text, not the title.
\<close>

theorem single_random_imageAlt_counterexample:
  "fst (getPostText_random (env_listing untitled_meme) []) = Inr single_untitled_record \<and>
   \<not> truthy (alt_text untitled_meme) \<and> \<not> truthy (description untitled_meme) \<and>
   imageAlt single_untitled_record \<noteq> title untitled_meme"
  by (simp add: getPostText_random_def getPostText_random_try_def io_defs example_defs
      untitled_meme_def js_or_def single_untitled_record_def lit_def)

lemma env_single_run: "fst (getPostText_random env_single []) = Inr single_record"
  by (simp add: getPostText_random_def getPostText_random_try_def io_defs example_defs
      example_meme_def js_or_def single_record_def lit_def)

text \<open>
  Claim C10. In the single-request variant, when the listing response is ok and parses to
  an object without an error whose list of memes is not empty, the image address of the
  returned record is the first entry's \<open>watermarked_image_url\<close> when that is present (a
  non-empty string), and the entry's \<open>image_url\<close> otherwise.
\<close>

theorem single_random_prefers_watermarked:
  assumes "fetch_answer E tr (single_random_request E) = Some response" "ok response"
    "body_json response = Some (Some res)" "\<not> truthy (error res)"
    "data res = Some d" "memes d = Some (meme # rest)"
  shows "\<exists>r. fst (getPostText_random E tr) = Inr r \<and>
     (truthy (watermarked_image_url meme) \<longrightarrow> imageUrl r = watermarked_image_url meme) \<and>
     (\<not> truthy (watermarked_image_url meme) \<longrightarrow> imageUrl r = image_url meme)"
  using getPostText_random_parsed [OF assms] by (simp add: js_or_def)

theorem single_random_prefers_watermarked_witness:
  "fetch_answer env_single [] (single_random_request env_single)
     = Some (listing_response [example_meme]) \<and>
   truthy (watermarked_image_url example_meme) \<and>
   (\<exists>r. fst (getPostText_random env_single []) = Inr r \<and>
      imageUrl r = Str (lit ''https://cdn.snagg.meme/watermarked.webp''))"
proof -
  have a: "fetch_answer env_single [] (single_random_request env_single)
     = Some (listing_response [example_meme])"
    by (simp add: example_defs)
  have b: "ok (listing_response [example_meme])"
    "body_json (listing_response [example_meme])
       = Some (Some \<lparr>data = Some \<lparr>memes = Some [example_meme]\<rparr>, error = Null\<rparr>)"
    "\<not> truthy (error \<lparr>data = Some \<lparr>memes = Some [example_meme]\<rparr>, error = Null\<rparr>)"
    "data \<lparr>data = Some \<lparr>memes = Some [example_meme]\<rparr>, error = Null\<rparr>
       = Some \<lparr>memes = Some [example_meme]\<rparr>"
    "memes \<lparr>memes = Some [example_meme]\<rparr> = Some (example_meme # [])"
    by (simp_all add: listing_response_def)
  have c: "truthy (watermarked_image_url example_meme)"
    "watermarked_image_url example_meme = Str (lit ''https://cdn.snagg.meme/watermarked.webp'')"
    by (simp_all add: example_meme_def lit_def)
  from single_random_prefers_watermarked [OF a b] a c show ?thesis
    by simp
qed


section \<open>The invariant of content records\<close>

lemma getPostText_random_try_cases:
  "(\<exists>e. fst (getPostText_random_try E tr) = Inl e) \<or>
   (\<exists>r. fst (getPostText_random_try E tr) = Inr r \<and> imageBuffer r = None \<and>
      imageAlt r \<noteq> Undefined \<and> truthy (externalUrl r))"
  by (simp add: getPostText_random_try_def io_defs Let_def lit_def
      split: option.splits list.splits)

lemma getPostText_random_invariant:
  "fst (getPostText_random E tr) = Inr r \<Longrightarrow> content_invariant r"
  using getPostText_random_try_cases [of E tr]
  by (auto simp add: getPostText_random_def io_catch_def io_return_def
        content_invariant_def only_text_def no_media_def text_only_def
      split: sum.splits prod.splits)

lemma getPostText_generate_try_cases:
  "(\<exists>e. fst (getPostText_generate_try E tr) = Inl e) \<or>
   (\<exists>r. fst (getPostText_generate_try E tr) = Inr r \<and> imageBuffer r \<noteq> None \<and>
      imageUrl r = Undefined)"
  by (simp add: getPostText_generate_try_def io_defs Let_def
      split: option.splits)

lemma getPostText_generate_invariant:
  "fst (getPostText_generate E tr) = Inr r \<Longrightarrow> content_invariant r"
  using getPostText_generate_try_cases [of E tr]
  by (auto simp add: getPostText_generate_def io_catch_def io_return_def
        content_invariant_def only_text_def no_media_def text_only_def
      split: sum.splits prod.splits)

lemma fetchGeneratedMeme_invariant:
  "fst (fetchGeneratedMeme E tr) = Inr (Some r) \<Longrightarrow> content_invariant r"
  unfolding fetchGeneratedMeme_Some_iff
  by (auto simp add: content_invariant_def only_text_def no_media_def)

lemma fetchRandomMeme_invariant:
  "fst (fetchRandomMeme E tr) = Inr (Some r) \<Longrightarrow> content_invariant r"
  unfolding fetchRandomMeme_Some_iff
  by (auto simp add: content_invariant_def only_text_def no_media_def)

lemma text_only_invariant: "content_invariant (text_only t)"
  by (simp add: content_invariant_def only_text_def no_media_def text_only_def)

lemma getPostText_invariant:
  assumes "fst (getPostText E tr) = Inr r"
  shows "content_invariant r"
proof (cases "\<exists>g. fst (fetchGeneratedMeme E tr) = Inr (Some g)")
  case True
  then show ?thesis
    using assms fetchGeneratedMeme_invariant [of E tr] by (auto simp add: getPostText_unfold)
next
  case False
  then have g: "fst (fetchGeneratedMeme E tr) = Inr None"
    using fetchGeneratedMeme_no_throw [of E tr] by (cases "fst (fetchGeneratedMeme E tr)") auto
  show ?thesis
  proof (cases "\<exists>m. fst (fetchRandomMeme E (tr @ [Fetch (generate_request E)])) = Inr (Some m)")
    case True
    then show ?thesis
      using assms g fetchRandomMeme_invariant [of E "tr @ [Fetch (generate_request E)]"]
      by (auto simp add: getPostText_unfold)
  next
    case False
    then have "fst (fetchRandomMeme E (tr @ [Fetch (generate_request E)])) = Inr None"
      using fetchRandomMeme_no_throw [of E "tr @ [Fetch (generate_request E)]"]
      by (cases "fst (fetchRandomMeme E (tr @ [Fetch (generate_request E)]))") auto
    then show ?thesis
      using assms g text_only_invariant [of fallback_text]
      by (auto simp add: getPostText_unfold)
  qed
qed

text \<open>
  Claim C4. Every record returned by a fetch operation (the two strategies, the resolver,
  the generate-only variant and the single-request variant) satisfies the invariant of
  content records: it does not carry both image bytes and an image address, also when it
  carries an external address; and it has only its text set exactly when none of its media
  fields (image bytes, image address, external address) is present.
\<close>

theorem fetched_records_invariant:
  "(\<forall>r. fst (fetchGeneratedMeme E tr) = Inr (Some r) \<longrightarrow> content_invariant r) \<and>
   (\<forall>r. fst (fetchRandomMeme E tr) = Inr (Some r) \<longrightarrow> content_invariant r) \<and>
   (\<forall>r. fst (getPostText E tr) = Inr r \<longrightarrow> content_invariant r) \<and>
   (\<forall>r. fst (getPostText_generate E tr) = Inr r \<longrightarrow> content_invariant r) \<and>
   (\<forall>r. fst (getPostText_random E tr) = Inr r \<longrightarrow> content_invariant r)"
  using fetchGeneratedMeme_invariant fetchRandomMeme_invariant getPostText_invariant
    getPostText_generate_invariant getPostText_random_invariant
  by blast

theorem fetched_records_invariant_witness:
  "fst (fetchGeneratedMeme env_generated []) = Inr (Some generated_record) \<and>
   content_invariant generated_record \<and> imageBuffer generated_record \<noteq> None \<and>
   fst (fetchRandomMeme env_random [Fetch (generate_request env_random)])
     = Inr (Some random_record) \<and>
   content_invariant random_record \<and>
   fst (getPostText env_down []) = Inr (text_only fallback_text) \<and>
   content_invariant (text_only fallback_text) \<and> only_text (text_only fallback_text) \<and>
   fst (getPostText_generate env_generated [])
     = Inr (generated_record\<lparr>imageMimeType := Undefined\<rparr>) \<and>
   content_invariant (generated_record\<lparr>imageMimeType := Undefined\<rparr>) \<and>
   fst (getPostText_random env_single []) = Inr single_record \<and>
   content_invariant single_record \<and> truthy (imageUrl single_record) \<and>
   truthy (externalUrl single_record)"
proof -
  have a: "fst (fetchGeneratedMeme env_generated []) = Inr (Some generated_record)"
    by (simp add: env_generated_run)
  note b = env_down_getPostText
  note c = env_single_run
  note d = env_random_run
  have e: "fst (getPostText_generate env_generated [])
     = Inr (generated_record\<lparr>imageMimeType := Undefined\<rparr>)"
    by (simp add: getPostText_generate_def getPostText_generate_try_def io_defs example_defs
        generated_postText_def generated_altParts_def generated_record_def lit_def dquote_def)
  from fetched_records_invariant [where E = env_generated and tr = "[]"]
    fetched_records_invariant
      [where E = env_random and tr = "[Fetch (generate_request env_random)]"]
    fetched_records_invariant [where E = env_down and tr = "[]"]
    fetched_records_invariant [where E = env_single and tr = "[]"]
    a b c d e
  show ?thesis
    by (simp add: generated_record_def single_record_def only_text_def text_only_def lit_def)
qed


section \<open>Embed selection and failure of the image asset\<close>

lemma Bot_post_posted:
  "posted (new_events tr (Bot_post E postData)) = [] \<or>
   (\<exists>p. posted (new_events tr (Bot_post E postData)) = [p] \<and>
      rec_text p = text' postData \<and>
      (truthy (imageUrl postData) \<longrightarrow>
         (\<exists>uploaded. rec_embed p =
            Some (EmbedImages [\<lparr>image = uploaded, alt = or_str (imageAlt postData) []\<rparr>]))) \<and>
      (\<not> truthy (imageUrl postData) \<and> truthy (externalUrl postData) \<longrightarrow>
         rec_embed p =
           Some (EmbedExternal
             \<lparr>uri = externalUrl postData,
              ext_title = or_str (externalTitle postData) [],
              ext_description = or_str (externalDescription postData) []\<rparr>)) \<and>
      (\<not> truthy (imageUrl postData) \<and> \<not> truthy (externalUrl postData) \<longrightarrow>
         rec_embed p = None))"
  by (simp add: new_events_def Bot_post_def io_defs agent_defs Let_def
      split: option.splits sum.splits prod.splits)

lemma Bot_post_success_posts:
  "fst (Bot_post E postData tr) = Inr u \<Longrightarrow>
     length (posted (new_events tr (Bot_post E postData))) = 1"
  by (cases "truthy (imageUrl postData)"; cases "truthy (externalUrl postData)";
      cases "detectFacets_answer E tr (text' postData)")
     (auto simp add: new_events_def Bot_post_def io_defs agent_defs Let_def
        split: option.splits sum.splits prod.splits)

lemma only_text_not_truthy:
  "only_text r \<Longrightarrow> \<not> truthy (imageUrl r) \<and> \<not> truthy (externalUrl r)"
  by (simp add: only_text_def)

text \<open>The example runs of \<open>Bot.post\<close>, evaluated.\<close>

lemma env_post_ok_run:
  "Bot_post env_post_ok single_record [] =
     (Inr (lit ''at://post/1''),
      [DetectFacets (lit ''Test Meme''),
       Fetch (plain_request (Str (lit ''https://cdn.snagg.meme/watermarked.webp''))),
       UploadBlob \<lparr>blob_bytes = [1, 2, 3], blob_type = lit ''image/jpeg''\<rparr>,
       Post image_post])"
  by (simp add: Bot_post_def io_defs agent_defs example_defs single_record_def image_post_def
      lit_def)

lemma env_post_ok_text_run:
  "Bot_post env_post_ok (text_only fallback_text) [] =
     (Inr (lit ''at://post/1''), [DetectFacets fallback_text, Post text_post])"
  by (simp add: Bot_post_def io_defs agent_defs example_defs text_only_def text_post_def)

lemma env_post_ok_link_run:
  "Bot_post env_post_ok link_record [] =
     (Inr (lit ''at://post/1''), [DetectFacets (lit ''Test Meme''), Post link_post])"
  by (simp add: Bot_post_def io_defs agent_defs example_defs link_record_def text_only_def
      link_post_def lit_def)

lemma env_post_image_missing_run:
  "Bot_post env_post_image_missing single_record [] =
     (Inl (Error (lit ''Failed to fetch image: Internal Server Error'')),
      [DetectFacets (lit ''Test Meme''),
       Fetch (plain_request (Str (lit ''https://cdn.snagg.meme/watermarked.webp'')))])"
  by (simp add: Bot_post_def io_defs agent_defs example_defs single_record_def lit_def)

lemma env_post_upload_fails_run:
  "Bot_post env_post_upload_fails single_record [] =
     (Inl XRPCError,
      [DetectFacets (lit ''Test Meme''),
       Fetch (plain_request (Str (lit ''https://cdn.snagg.meme/watermarked.webp''))),
       UploadBlob \<lparr>blob_bytes = [1, 2, 3], blob_type = lit ''image/jpeg''\<rparr>])"
  by (simp add: Bot_post_def io_defs agent_defs example_defs single_record_def lit_def)

text \<open>
  Claim C3. \<open>Bot.post\<close> submits at most one post record, and exactly one when it returns.
  The record carries no embed or one embed, which is an image embed or an external-link
  embed. When the image address of the content record is present, the embed is the image
  embed with the uploaded image and the record's alt text (empty when absent), whether or
  not an external address is present as well. When only the external address is present,
  the embed is the link card. When neither is present, and so for a record that has only
  its text set, there is no embed.
\<close>

theorem Bot_post_embed_selection:
  "length (posted (new_events tr (Bot_post E postData))) \<le> 1 \<and>
   (\<forall>u. fst (Bot_post E postData tr) = Inr u \<longrightarrow>
      length (posted (new_events tr (Bot_post E postData))) = 1) \<and>
   (\<forall>p \<in> set (posted (new_events tr (Bot_post E postData))).
      (rec_embed p = None \<or> (\<exists>images. rec_embed p = Some (EmbedImages images)) \<or>
         (\<exists>card. rec_embed p = Some (EmbedExternal card))) \<and>
      (truthy (imageUrl postData) \<longrightarrow>
         (\<exists>uploaded. rec_embed p =
            Some (EmbedImages [\<lparr>image = uploaded, alt = or_str (imageAlt postData) []\<rparr>]))) \<and>
      (\<not> truthy (imageUrl postData) \<and> truthy (externalUrl postData) \<longrightarrow>
         rec_embed p =
           Some (EmbedExternal
             \<lparr>uri = externalUrl postData,
              ext_title = or_str (externalTitle postData) [],
              ext_description = or_str (externalDescription postData) []\<rparr>)) \<and>
      (\<not> truthy (imageUrl postData) \<and> \<not> truthy (externalUrl postData) \<longrightarrow>
         rec_embed p = None) \<and>
      (only_text postData \<longrightarrow> rec_embed p = None))"
proof -
  have l: "length (posted (new_events tr (Bot_post E postData))) \<le> 1"
    using Bot_post_posted [of tr E postData] by auto
  have s: "\<forall>u. fst (Bot_post E postData tr) = Inr u \<longrightarrow>
      length (posted (new_events tr (Bot_post E postData))) = 1"
    using Bot_post_success_posts by blast
  have e: "\<forall>p \<in> set (posted (new_events tr (Bot_post E postData))).
      (rec_embed p = None \<or> (\<exists>images. rec_embed p = Some (EmbedImages images)) \<or>
         (\<exists>card. rec_embed p = Some (EmbedExternal card))) \<and>
      (truthy (imageUrl postData) \<longrightarrow>
         (\<exists>uploaded. rec_embed p =
            Some (EmbedImages [\<lparr>image = uploaded, alt = or_str (imageAlt postData) []\<rparr>]))) \<and>
      (\<not> truthy (imageUrl postData) \<and> truthy (externalUrl postData) \<longrightarrow>
         rec_embed p =
           Some (EmbedExternal
             \<lparr>uri = externalUrl postData,
              ext_title = or_str (externalTitle postData) [],
              ext_description = or_str (externalDescription postData) []\<rparr>)) \<and>
      (\<not> truthy (imageUrl postData) \<and> \<not> truthy (externalUrl postData) \<longrightarrow>
         rec_embed p = None) \<and>
      (only_text postData \<longrightarrow> rec_embed p = None)"
    using Bot_post_posted [of tr E postData] only_text_not_truthy [of postData]
    by (cases "truthy (imageUrl postData)"; cases "truthy (externalUrl postData)") auto
  from l s e show ?thesis by (intro conjI)
qed

theorem Bot_post_embed_selection_witness:
  "truthy (imageUrl single_record) \<and> truthy (externalUrl single_record) \<and>
   posted (new_events [] (Bot_post env_post_ok single_record)) = [image_post] \<and>
   (\<exists>uploaded. rec_embed image_post =
      Some (EmbedImages [\<lparr>image = uploaded, alt = or_str (imageAlt single_record) []\<rparr>])) \<and>
   \<not> truthy (imageUrl link_record) \<and> truthy (externalUrl link_record) \<and>
   posted (new_events [] (Bot_post env_post_ok link_record)) = [link_post] \<and>
   rec_embed link_post =
     Some (EmbedExternal
       \<lparr>uri = externalUrl link_record,
        ext_title = or_str (externalTitle link_record) [],
        ext_description = or_str (externalDescription link_record) []\<rparr>) \<and>
   only_text (text_only fallback_text) \<and>
   posted (new_events [] (Bot_post env_post_ok (text_only fallback_text))) = [text_post] \<and>
   rec_embed text_post = None"
proof -
  have a: "posted (new_events [] (Bot_post env_post_ok single_record)) = [image_post]"
    "posted (new_events [] (Bot_post env_post_ok (text_only fallback_text))) = [text_post]"
    "posted (new_events [] (Bot_post env_post_ok link_record)) = [link_post]"
    by (simp_all add: new_events_def env_post_ok_run env_post_ok_text_run env_post_ok_link_run)
  have b: "truthy (imageUrl single_record)" "truthy (externalUrl single_record)"
    "only_text (text_only fallback_text)"
    "\<not> truthy (imageUrl link_record)" "truthy (externalUrl link_record)"
    by (simp_all add: single_record_def link_record_def only_text_def text_only_def lit_def)
  have "\<exists>uploaded. rec_embed image_post =
      Some (EmbedImages [\<lparr>image = uploaded, alt = or_str (imageAlt single_record) []\<rparr>])"
    using Bot_post_embed_selection
      [where E = env_post_ok and postData = single_record and tr = "[]"] a(1) b(1)
    by simp
  moreover have "rec_embed text_post = None"
    using Bot_post_embed_selection
      [where E = env_post_ok and postData = "text_only fallback_text" and tr = "[]"] a(2) b(3)
    by simp
  moreover have "rec_embed link_post =
     Some (EmbedExternal
       \<lparr>uri = externalUrl link_record,
        ext_title = or_str (externalTitle link_record) [],
        ext_description = or_str (externalDescription link_record) []\<rparr>)"
    using Bot_post_embed_selection
      [where E = env_post_ok and postData = link_record and tr = "[]"] a(3) b(4,5)
    by simp
  ultimately show ?thesis
    using a b by simp
qed

text \<open>
  Claim C2. Let the image address of the content record be present. When the image request
  is rejected or answered by a response that is not ok, when the body of the response
  cannot be read, or when the upload of the blob is rejected, \<open>Bot.post\<close> raises an
  exception to its caller and submits no post record at all, so no text-only post either.
\<close>

theorem Bot_post_image_failure_propagates:
  assumes "truthy (imageUrl postData)"
    and "fetch_answer E (tr @ [DetectFacets (text' postData)]) (plain_request (imageUrl postData))
           = None \<or>
         (\<exists>imageResponse.
            fetch_answer E (tr @ [DetectFacets (text' postData)])
              (plain_request (imageUrl postData)) = Some imageResponse \<and>
            (\<not> ok imageResponse \<or> body_arrayBuffer imageResponse = None \<or>
             (\<exists>imageBuffer'. body_arrayBuffer imageResponse = Some imageBuffer' \<and>
                uploadBlob_answer E
                  (tr @ [DetectFacets (text' postData), Fetch (plain_request (imageUrl postData))])
                  \<lparr>blob_bytes = imageBuffer',
                   blob_type = or_str (headers_get imageResponse ''content-type'')
                     (lit ''image/jpeg'')\<rparr> = None)))"
  shows "(\<exists>e. fst (Bot_post E postData tr) = Inl e) \<and>
         posted (new_events tr (Bot_post E postData)) = []"
  using assms
  by (auto simp add: new_events_def Bot_post_def io_defs agent_defs Let_def
      split: option.splits sum.splits prod.splits)

theorem Bot_post_image_failure_propagates_witness:
  "truthy (imageUrl single_record) \<and>
   fetch_answer env_post_image_missing ([] @ [DetectFacets (text' single_record)])
     (plain_request (imageUrl single_record)) = Some error_response \<and>
   \<not> ok error_response \<and>
   fst (Bot_post env_post_image_missing single_record [])
     = Inl (Error (lit ''Failed to fetch image: Internal Server Error'')) \<and>
   posted (new_events [] (Bot_post env_post_image_missing single_record)) = [] \<and>
   fetch_answer env_post_upload_fails ([] @ [DetectFacets (text' single_record)])
     (plain_request (imageUrl single_record)) = Some (image_response []) \<and>
   ok (image_response []) \<and> body_arrayBuffer (image_response []) = Some [1, 2, 3] \<and>
   uploadBlob_answer env_post_upload_fails
     ([] @ [DetectFacets (text' single_record), Fetch (plain_request (imageUrl single_record))])
     \<lparr>blob_bytes = [1, 2, 3],
      blob_type = or_str (headers_get (image_response []) ''content-type'') (lit ''image/jpeg'')\<rparr>
     = None \<and>
   fst (Bot_post env_post_upload_fails single_record []) = Inl XRPCError \<and>
   posted (new_events [] (Bot_post env_post_upload_fails single_record)) = []"
proof -
  have t: "truthy (imageUrl single_record)"
    by (simp add: single_record_def lit_def)
  have a: "fetch_answer env_post_image_missing ([] @ [DetectFacets (text' single_record)])
     (plain_request (imageUrl single_record)) = Some error_response"
    "\<not> ok error_response"
    by (simp_all add: example_defs)
  have b: "fetch_answer env_post_upload_fails ([] @ [DetectFacets (text' single_record)])
     (plain_request (imageUrl single_record)) = Some (image_response [])"
    "ok (image_response [])" "body_arrayBuffer (image_response []) = Some [1, 2, 3]"
    "uploadBlob_answer env_post_upload_fails
     ([] @ [DetectFacets (text' single_record), Fetch (plain_request (imageUrl single_record))])
     \<lparr>blob_bytes = [1, 2, 3],
      blob_type = or_str (headers_get (image_response []) ''content-type'') (lit ''image/jpeg'')\<rparr>
     = None"
    by (simp_all add: example_defs)
  have "posted (new_events [] (Bot_post env_post_image_missing single_record)) = []"
    using Bot_post_image_failure_propagates
      [where E = env_post_image_missing and postData = single_record and tr = "[]"] t a
    by blast
  moreover have "posted (new_events [] (Bot_post env_post_upload_fails single_record)) = []"
    using Bot_post_image_failure_propagates
      [where E = env_post_upload_fails and postData = single_record and tr = "[]"] t b
    by blast
  ultimately show ?thesis
    using t a b by (simp add: env_post_image_missing_run env_post_upload_fails_run)
qed

end
